theory Spec2Isabelle
  imports Main
begin

section \<open>The portfolio content-management API (index.js)\<close>

text \<open>
  The program is one Express application over six Mongoose models. The embedding keeps
  the document store as an explicit state that every handler receives and returns, the
  response as a value, and every \<open>throw\<close> that a \<open>try\<close> block of the source
  catches as the left summand of a sum type.

  The libraries the source calls (jsonwebtoken, bcryptjs, the ObjectId cast of the
  driver) are not part of the program: they are fields of the record \<open>config\<close>, and
  every general theorem holds for all their values. The process environment
  (\<open>process.env\<close>) is in the same record. \<open>Date.now()\<close> is the argument \<open>now\<close>
  of a handler, one value for one request.

  Left out: the connection to the database (a store call never fails for reasons outside
  the data), the \<open>updatedAt\<close> stamp of \<open>timestamps: true\<close> (nothing in the source
  reads it), logging, and request bodies that are not of the shape the schema declares
  (a field of a body is a string or absent).
\<close>

subsection \<open>Documents\<close>

type_synonym oid = nat

record about =
  a_id :: oid
  a_title :: "string option"
  a_text :: "string option"
  a_createdAt :: nat

record project =
  p_id :: oid
  p_title :: "string option"
  p_description :: "string option"
  p_tech :: "string option"
  p_link :: "string option"
  p_image :: "string option"
  p_createdAt :: nat

record experience =
  e_id :: oid
  e_role :: "string option"
  e_company :: "string option"
  e_duration :: "string option"
  e_description :: "string option"
  e_createdAt :: nat

record skill =
  sk_id :: oid
  sk_name :: string
  sk_createdAt :: nat

record submission =
  sub_id :: oid
  sub_name :: "string option"
  sub_email :: "string option"
  sub_message :: "string option"
  sub_date :: nat
  sub_createdAt :: nat

record admin =
  adm_id :: oid
  adm_email :: string
  adm_password :: string

text \<open>
  The store: one list per collection, in insertion order, and the next identifier the
  driver will generate.
\<close>

record store =
  abouts :: "about list"
  projects :: "project list"
  experiences :: "experience list"
  skills :: "skill list"
  submissions :: "submission list"
  admins :: "admin list"
  next_oid :: oid

subsection \<open>Requests and responses\<close>

record about_input =
  in_title :: "string option"
  in_text :: "string option"

record project_input =
  pin_title :: "string option"
  pin_description :: "string option"
  pin_tech :: "string option"
  pin_link :: "string option"
  pin_image :: "string option"

record experience_input =
  xin_role :: "string option"
  xin_company :: "string option"
  xin_duration :: "string option"
  xin_description :: "string option"

record submission_input =
  sin_name :: "string option"
  sin_email :: "string option"
  sin_message :: "string option"
  sin_date :: "nat option"

record login_input =
  lin_email :: "string option"
  lin_password :: "string option"

text \<open>
  A route with what the request carries for it. The \<open>string option\<close> of the two
  project routes is the \<open>originalname\<close> of the file part \<open>image\<close>, when there is one;
  the \<open>string\<close> of the \<open>:id\<close> routes is the path segment.
\<close>

datatype route =
    GetContent
  | PostLogin login_input
  | PutAbout about_input
  | PutSkills "string list"
  | PostProjects project_input "string option"
  | PutProjectsId string project_input "string option"
  | DeleteProjectsId string
  | PostExperience experience_input
  | PutExperienceId string experience_input
  | DeleteExperienceId string
  | PostContactSubmit submission_input
  | GetContactSubmissions

record request =
  authorization :: "string option"
  route :: route

datatype exn = CastError | DuplicateKeyError | Thrown string

datatype about_view = AboutDoc about | AboutLiteral string string

datatype body =
    Message string
  | Failure string exn
  | TokenBody string
  | ContentBody about_view "project list" "experience list" "string list"
  | AboutBody about
  | SkillsBody "string list"
  | ProjectBody "project option"
  | ExperienceBody "experience option"
  | SubmissionsBody "submission list"

record response =
  status :: nat
  body :: body

definition json :: "body \<Rightarrow> response" where
  "json b = \<lparr>status = 200, body = b\<rparr>"

definition status_json :: "nat \<Rightarrow> body \<Rightarrow> response" where
  "status_json c b = \<lparr>status = c, body = b\<rparr>"

subsection \<open>Environment and libraries\<close>

record jwt_payload =
  payload_id :: "oid option"
  payload_iat :: nat
  payload_exp :: nat

text \<open>
  \<open>jwt_verify token secret now\<close> is \<open>jwt.verify\<close>, \<open>jwt_sign id secret expiresIn now\<close>
  is \<open>jwt.sign({ id }, secret, { expiresIn })\<close> with the validity in seconds,
  \<open>bcrypt_compareSync\<close> and \<open>bcrypt_hashSync\<close> are the two bcryptjs calls, and
  \<open>castObjectId\<close> is the cast of a path segment to an identifier that the
  \<open>findById...\<close> calls make (\<open>None\<close> when the cast fails).
\<close>

record config =
  JWT_SECRET :: "string option"
  ADMIN_EMAIL :: "string option"
  ADMIN_PASSWORD :: "string option"
  jwt_verify :: "string option \<Rightarrow> string option \<Rightarrow> nat \<Rightarrow> exn + jwt_payload"
  jwt_sign :: "oid \<Rightarrow> string option \<Rightarrow> nat \<Rightarrow> nat \<Rightarrow> exn + string"
  bcrypt_compareSync :: "string option \<Rightarrow> string \<Rightarrow> exn + bool"
  bcrypt_hashSync :: "string \<Rightarrow> nat \<Rightarrow> string"
  castObjectId :: "string \<Rightarrow> oid option"

subsection \<open>JavaScript strings\<close>

definition startsWith :: "string \<Rightarrow> string \<Rightarrow> bool" where
  "startsWith s p = (take (length p) s = p)"

fun js_split :: "char \<Rightarrow> string \<Rightarrow> string list" where
  "js_split c [] = [[]]"
| "js_split c (x # xs) =
     (if x = c then [] # js_split c xs
      else (case js_split c xs of
              [] \<Rightarrow> [[x]]
            | w # ws \<Rightarrow> (x # w) # ws))"

text \<open>\<open>xs[i]\<close>: \<open>undefined\<close> out of range.\<close>

definition js_index :: "'a list \<Rightarrow> nat \<Rightarrow> 'a option" where
  "js_index xs i = (if i < length xs then Some (xs ! i) else None)"

text \<open>\<open>x || d\<close> on a string that may be undefined: the empty string is falsy too.\<close>

definition or_default :: "string option \<Rightarrow> string \<Rightarrow> string" where
  "or_default x d = (case x of None \<Rightarrow> d | Some v \<Rightarrow> (if v = [] then d else v))"

fun show_nat :: "nat \<Rightarrow> string" where
  "show_nat n =
     (if n < 10 then [char_of (48 + n)]
      else show_nat (n div 10) @ [char_of (48 + n mod 10)])"

declare show_nat.simps [simp del]

subsection \<open>The auth middleware\<close>

datatype auth_result = Rejected response | Next "oid option"

definition authenticate :: "config \<Rightarrow> nat \<Rightarrow> request \<Rightarrow> auth_result" where
  "authenticate cfg now req =
     (case authorization req of
        None \<Rightarrow> Rejected (status_json 401 (Message ''Unauthorized: Missing Token''))
      | Some authHeader \<Rightarrow>
          if authHeader = [] \<or> \<not> startsWith authHeader ''Bearer ''
          then Rejected (status_json 401 (Message ''Unauthorized: Missing Token''))
          else
            (case jwt_verify cfg (js_index (js_split CHR '' '' authHeader) 1)
                    (JWT_SECRET cfg) now of
               Inl err \<Rightarrow>
                 Rejected (status_json 401
                   (Message ''Unauthorized: Invalid or Expired Token''))
             | Inr decoded \<Rightarrow> Next (payload_id decoded)))"

text \<open>
  A route whose chain starts with \<open>authenticate\<close>: the rest of the chain runs only when
  the middleware calls \<open>next()\<close>; otherwise the response is the one it sent.
\<close>

definition guarded ::
  "auth_result \<Rightarrow> (store \<Rightarrow> response \<times> store) \<Rightarrow> store \<Rightarrow> response \<times> store" where
  "guarded a h s = (case a of Rejected r \<Rightarrow> (r, s) | Next adminId \<Rightarrow> h s)"

subsection \<open>Store operations\<close>

definition findOne :: "'a list \<Rightarrow> 'a option" where
  "findOne ds = (case ds of [] \<Rightarrow> None | d # _ \<Rightarrow> Some d)"

fun update_first :: "('a \<Rightarrow> bool) \<Rightarrow> ('a \<Rightarrow> 'a) \<Rightarrow> 'a list \<Rightarrow> 'a list" where
  "update_first P f [] = []"
| "update_first P f (d # ds) = (if P d then f d # ds else d # update_first P f ds)"

fun delete_first :: "('a \<Rightarrow> bool) \<Rightarrow> 'a list \<Rightarrow> 'a list" where
  "delete_first P [] = []"
| "delete_first P (d # ds) = (if P d then ds else d # delete_first P ds)"

text \<open>A field of an update document replaces the stored one; an absent field leaves it.\<close>

definition overlay :: "'a option \<Rightarrow> 'a option \<Rightarrow> 'a option" where
  "overlay new old = (case new of None \<Rightarrow> old | Some v \<Rightarrow> Some v)"

definition sort_newest :: "('a \<Rightarrow> nat) \<Rightarrow> 'a list \<Rightarrow> 'a list" where
  "sort_newest k ds = rev (sort_key k ds)"

definition About_create :: "nat \<Rightarrow> about_input \<Rightarrow> store \<Rightarrow> about \<times> store" where
  "About_create now d s =
     (let doc = \<lparr>a_id = next_oid s,
                 a_title = Some (case in_title d of None \<Rightarrow> ''About Me'' | Some t \<Rightarrow> t),
                 a_text = Some (case in_text d of None \<Rightarrow> [] | Some t \<Rightarrow> t),
                 a_createdAt = now\<rparr>
      in (doc, s\<lparr>abouts := abouts s @ [doc], next_oid := Suc (next_oid s)\<rparr>))"

text \<open>
  A document loaded from the store gets the schema defaults for the paths it lacks:
  \<open>title: { default: 'About Me' }\<close> and \<open>text: { default: '' }\<close>.
\<close>

definition About_hydrate :: "about \<Rightarrow> about" where
  "About_hydrate doc =
     doc\<lparr>a_title := Some (case a_title doc of None \<Rightarrow> ''About Me'' | Some t \<Rightarrow> t),
         a_text := Some (case a_text doc of None \<Rightarrow> [] | Some t \<Rightarrow> t)\<rparr>"

definition About_findOne :: "store \<Rightarrow> about option" where
  "About_findOne s =
     (case findOne (abouts s) of None \<Rightarrow> None | Some doc \<Rightarrow> Some (About_hydrate doc))"

definition About_save :: "about \<Rightarrow> store \<Rightarrow> store" where
  "About_save doc s =
     s\<lparr>abouts := update_first (\<lambda>d. a_id d = a_id doc) (\<lambda>d. doc) (abouts s)\<rparr>"

definition Project_create :: "nat \<Rightarrow> project_input \<Rightarrow> store \<Rightarrow> project \<times> store" where
  "Project_create now d s =
     (let doc = \<lparr>p_id = next_oid s, p_title = pin_title d,
                 p_description = pin_description d, p_tech = pin_tech d,
                 p_link = pin_link d, p_image = pin_image d, p_createdAt = now\<rparr>
      in (doc, s\<lparr>projects := projects s @ [doc], next_oid := Suc (next_oid s)\<rparr>))"

definition Project_set :: "project_input \<Rightarrow> project \<Rightarrow> project" where
  "Project_set d doc =
     doc\<lparr>p_title := overlay (pin_title d) (p_title doc),
         p_description := overlay (pin_description d) (p_description doc),
         p_tech := overlay (pin_tech d) (p_tech doc),
         p_link := overlay (pin_link d) (p_link doc),
         p_image := overlay (pin_image d) (p_image doc)\<rparr>"

definition Project_findByIdAndUpdate ::
  "config \<Rightarrow> string \<Rightarrow> project_input \<Rightarrow> store \<Rightarrow> (exn + project option) \<times> store" where
  "Project_findByIdAndUpdate cfg i d s =
     (case castObjectId cfg i of
        None \<Rightarrow> (Inl CastError, s)
      | Some k \<Rightarrow>
          (case find (\<lambda>doc. p_id doc = k) (projects s) of
             None \<Rightarrow> (Inr None, s)
           | Some doc \<Rightarrow>
               (Inr (Some (Project_set d doc)),
                s\<lparr>projects := update_first (\<lambda>doc. p_id doc = k) (Project_set d) (projects s)\<rparr>)))"

definition Project_findByIdAndDelete ::
  "config \<Rightarrow> string \<Rightarrow> store \<Rightarrow> (exn + project option) \<times> store" where
  "Project_findByIdAndDelete cfg i s =
     (case castObjectId cfg i of
        None \<Rightarrow> (Inl CastError, s)
      | Some k \<Rightarrow>
          (Inr (find (\<lambda>doc. p_id doc = k) (projects s)),
           s\<lparr>projects := delete_first (\<lambda>doc. p_id doc = k) (projects s)\<rparr>))"

definition Experience_create ::
  "nat \<Rightarrow> experience_input \<Rightarrow> store \<Rightarrow> experience \<times> store" where
  "Experience_create now d s =
     (let doc = \<lparr>e_id = next_oid s, e_role = xin_role d, e_company = xin_company d,
                 e_duration = xin_duration d, e_description = xin_description d,
                 e_createdAt = now\<rparr>
      in (doc, s\<lparr>experiences := experiences s @ [doc], next_oid := Suc (next_oid s)\<rparr>))"

definition Experience_set :: "experience_input \<Rightarrow> experience \<Rightarrow> experience" where
  "Experience_set d doc =
     doc\<lparr>e_role := overlay (xin_role d) (e_role doc),
         e_company := overlay (xin_company d) (e_company doc),
         e_duration := overlay (xin_duration d) (e_duration doc),
         e_description := overlay (xin_description d) (e_description doc)\<rparr>"

definition Experience_findByIdAndUpdate ::
  "config \<Rightarrow> string \<Rightarrow> experience_input \<Rightarrow> store \<Rightarrow> (exn + experience option) \<times> store" where
  "Experience_findByIdAndUpdate cfg i d s =
     (case castObjectId cfg i of
        None \<Rightarrow> (Inl CastError, s)
      | Some k \<Rightarrow>
          (case find (\<lambda>doc. e_id doc = k) (experiences s) of
             None \<Rightarrow> (Inr None, s)
           | Some doc \<Rightarrow>
               (Inr (Some (Experience_set d doc)),
                s\<lparr>experiences :=
                    update_first (\<lambda>doc. e_id doc = k) (Experience_set d) (experiences s)\<rparr>)))"

definition Experience_findByIdAndDelete ::
  "config \<Rightarrow> string \<Rightarrow> store \<Rightarrow> (exn + experience option) \<times> store" where
  "Experience_findByIdAndDelete cfg i s =
     (case castObjectId cfg i of
        None \<Rightarrow> (Inl CastError, s)
      | Some k \<Rightarrow>
          (Inr (find (\<lambda>doc. e_id doc = k) (experiences s)),
           s\<lparr>experiences := delete_first (\<lambda>doc. e_id doc = k) (experiences s)\<rparr>))"

definition Skill_deleteMany :: "store \<Rightarrow> store" where
  "Skill_deleteMany s = s\<lparr>skills := []\<rparr>"

text \<open>
  \<open>insertMany\<close> is ordered: the documents go in one after the other, and the first one
  that the unique index on \<open>name\<close> refuses ends the call with an error, the earlier
  ones staying in. \<open>acc\<close> collects the inserted documents.
\<close>

fun Skill_insertMany ::
  "nat \<Rightarrow> string list \<Rightarrow> skill list \<Rightarrow> store \<Rightarrow> (exn + skill list) \<times> store" where
  "Skill_insertMany now [] acc s = (Inr acc, s)"
| "Skill_insertMany now (n # ns) acc s =
     (if n \<in> set (map sk_name (skills s)) then (Inl DuplicateKeyError, s)
      else
        (let doc = \<lparr>sk_id = next_oid s, sk_name = n, sk_createdAt = now\<rparr>
         in Skill_insertMany now ns (acc @ [doc])
              (s\<lparr>skills := skills s @ [doc], next_oid := Suc (next_oid s)\<rparr>)))"

definition Submission_create ::
  "nat \<Rightarrow> submission_input \<Rightarrow> store \<Rightarrow> submission \<times> store" where
  "Submission_create now d s =
     (let doc = \<lparr>sub_id = next_oid s, sub_name = sin_name d, sub_email = sin_email d,
                 sub_message = sin_message d,
                 sub_date = (case sin_date d of None \<Rightarrow> now | Some t \<Rightarrow> t),
                 sub_createdAt = now\<rparr>
      in (doc, s\<lparr>submissions := submissions s @ [doc], next_oid := Suc (next_oid s)\<rparr>))"

definition Admin_create :: "string \<Rightarrow> string \<Rightarrow> store \<Rightarrow> (exn + admin) \<times> store" where
  "Admin_create email password s =
     (if email \<in> set (map adm_email (admins s)) then (Inl DuplicateKeyError, s)
      else
        (let doc = \<lparr>adm_id = next_oid s, adm_email = email, adm_password = password\<rparr>
         in (Inr doc, s\<lparr>admins := admins s @ [doc], next_oid := Suc (next_oid s)\<rparr>)))"

definition Admin_findOne :: "string option \<Rightarrow> store \<Rightarrow> admin option" where
  "Admin_findOne email s = find (\<lambda>a. Some (adm_email a) = email) (admins s)"

definition Admin_countDocuments :: "store \<Rightarrow> nat" where
  "Admin_countDocuments s = length (admins s)"

subsection \<open>Image upload\<close>

text \<open>
  \<open>upload.single('image')\<close> with the disk storage of the source: the stored file is
  named \<open>Date.now() + '-' + file.originalname\<close>. The result is \<open>req.file.filename\<close>,
  absent when the request has no file part.
\<close>

definition upload_single :: "nat \<Rightarrow> string option \<Rightarrow> string option" where
  "upload_single now file =
     (case file of
        None \<Rightarrow> None
      | Some originalname \<Rightarrow> Some (show_nat now @ ''-'' @ originalname))"

text \<open>\<open>projectData\<close>: a copy of the body, with \<open>image\<close> set when there is a file.\<close>

definition projectData :: "project_input \<Rightarrow> string option \<Rightarrow> project_input" where
  "projectData b file =
     (case file of
        None \<Rightarrow> b
      | Some filename \<Rightarrow> b\<lparr>pin_image := Some (''/uploads/'' @ filename)\<rparr>)"

subsection \<open>The handlers\<close>

definition get_content :: "store \<Rightarrow> response \<times> store" where
  "get_content s =
     (let about = (case About_findOne s of
                     None \<Rightarrow> AboutLiteral ''About Me'' []
                   | Some a \<Rightarrow> AboutDoc a);
          projs = sort_newest p_createdAt (projects s);
          exps = sort_newest e_createdAt (experiences s);
          skillsData = skills s
      in (json (ContentBody about projs exps (map sk_name skillsData)), s))"

definition post_login :: "config \<Rightarrow> nat \<Rightarrow> login_input \<Rightarrow> store \<Rightarrow> response \<times> store" where
  "post_login cfg now b s =
     (case Admin_findOne (lin_email b) s of
        None \<Rightarrow> (status_json 401 (Message ''Invalid credentials''), s)
      | Some admin \<Rightarrow>
          (case bcrypt_compareSync cfg (lin_password b) (adm_password admin) of
             Inl err \<Rightarrow> (status_json 500 (Failure ''Login error'' err), s)
           | Inr matches \<Rightarrow>
               if matches then
                 (case jwt_sign cfg (adm_id admin) (JWT_SECRET cfg) 86400 now of
                    Inl err \<Rightarrow> (status_json 500 (Failure ''Login error'' err), s)
                  | Inr token \<Rightarrow> (json (TokenBody token), s))
               else (status_json 401 (Message ''Invalid credentials''), s)))"

definition about_handler :: "nat \<Rightarrow> about_input \<Rightarrow> store \<Rightarrow> response \<times> store" where
  "about_handler now b s =
     (case About_findOne s of
        Some about \<Rightarrow>
          (let about' = about\<lparr>a_title := in_title b, a_text := in_text b\<rparr>
           in (json (AboutBody about'), About_save about' s))
      | None \<Rightarrow>
          (case About_create now b s of (about, s') \<Rightarrow> (json (AboutBody about), s')))"

definition put_about ::
  "config \<Rightarrow> nat \<Rightarrow> request \<Rightarrow> about_input \<Rightarrow> store \<Rightarrow> response \<times> store" where
  "put_about cfg now req b s = guarded (authenticate cfg now req) (about_handler now b) s"

definition skills_handler :: "nat \<Rightarrow> string list \<Rightarrow> store \<Rightarrow> response \<times> store" where
  "skills_handler now b s =
     (case Skill_insertMany now b [] (Skill_deleteMany s) of
        (Inl err, s') \<Rightarrow> (status_json 500 (Failure ''Skills update error'' err), s')
      | (Inr newSkills, s') \<Rightarrow> (json (SkillsBody (map sk_name newSkills)), s'))"

definition put_skills ::
  "config \<Rightarrow> nat \<Rightarrow> request \<Rightarrow> string list \<Rightarrow> store \<Rightarrow> response \<times> store" where
  "put_skills cfg now req b s = guarded (authenticate cfg now req) (skills_handler now b) s"

definition add_project_handler ::
  "nat \<Rightarrow> project_input \<Rightarrow> string option \<Rightarrow> store \<Rightarrow> response \<times> store" where
  "add_project_handler now b file s =
     (case Project_create now (projectData b (upload_single now file)) s of
        (newProject, s') \<Rightarrow> (json (ProjectBody (Some newProject)), s'))"

definition post_projects ::
  "config \<Rightarrow> nat \<Rightarrow> request \<Rightarrow> project_input \<Rightarrow> string option \<Rightarrow> store
     \<Rightarrow> response \<times> store" where
  "post_projects cfg now req b file s =
     guarded (authenticate cfg now req) (add_project_handler now b file) s"

definition update_project_handler ::
  "config \<Rightarrow> nat \<Rightarrow> string \<Rightarrow> project_input \<Rightarrow> string option \<Rightarrow> store
     \<Rightarrow> response \<times> store" where
  "update_project_handler cfg now i b file s =
     (case Project_findByIdAndUpdate cfg i (projectData b (upload_single now file)) s of
        (Inl err, s') \<Rightarrow> (status_json 500 (Failure ''Project update error'' err), s')
      | (Inr updatedProject, s') \<Rightarrow> (json (ProjectBody updatedProject), s'))"

definition put_projects_id ::
  "config \<Rightarrow> nat \<Rightarrow> request \<Rightarrow> string \<Rightarrow> project_input \<Rightarrow> string option \<Rightarrow> store
     \<Rightarrow> response \<times> store" where
  "put_projects_id cfg now req i b file s =
     guarded (authenticate cfg now req) (update_project_handler cfg now i b file) s"

definition delete_project_handler :: "config \<Rightarrow> string \<Rightarrow> store \<Rightarrow> response \<times> store" where
  "delete_project_handler cfg i s =
     (case Project_findByIdAndDelete cfg i s of
        (Inl err, s') \<Rightarrow> (status_json 500 (Failure ''Delete error'' err), s')
      | (Inr deleted, s') \<Rightarrow> (json (Message ''Deleted''), s'))"

definition delete_projects_id ::
  "config \<Rightarrow> nat \<Rightarrow> request \<Rightarrow> string \<Rightarrow> store \<Rightarrow> response \<times> store" where
  "delete_projects_id cfg now req i s =
     guarded (authenticate cfg now req) (delete_project_handler cfg i) s"

definition add_experience_handler ::
  "nat \<Rightarrow> experience_input \<Rightarrow> store \<Rightarrow> response \<times> store" where
  "add_experience_handler now b s =
     (case Experience_create now b s of
        (newExp, s') \<Rightarrow> (json (ExperienceBody (Some newExp)), s'))"

definition post_experience ::
  "config \<Rightarrow> nat \<Rightarrow> request \<Rightarrow> experience_input \<Rightarrow> store \<Rightarrow> response \<times> store" where
  "post_experience cfg now req b s =
     guarded (authenticate cfg now req) (add_experience_handler now b) s"

definition update_experience_handler ::
  "config \<Rightarrow> string \<Rightarrow> experience_input \<Rightarrow> store \<Rightarrow> response \<times> store" where
  "update_experience_handler cfg i b s =
     (case Experience_findByIdAndUpdate cfg i b s of
        (Inl err, s') \<Rightarrow> (status_json 500 (Failure ''Experience update error'' err), s')
      | (Inr updatedExp, s') \<Rightarrow> (json (ExperienceBody updatedExp), s'))"

definition put_experience_id ::
  "config \<Rightarrow> nat \<Rightarrow> request \<Rightarrow> string \<Rightarrow> experience_input \<Rightarrow> store
     \<Rightarrow> response \<times> store" where
  "put_experience_id cfg now req i b s =
     guarded (authenticate cfg now req) (update_experience_handler cfg i b) s"

definition delete_experience_handler :: "config \<Rightarrow> string \<Rightarrow> store \<Rightarrow> response \<times> store" where
  "delete_experience_handler cfg i s =
     (case Experience_findByIdAndDelete cfg i s of
        (Inl err, s') \<Rightarrow> (status_json 500 (Failure ''Delete error'' err), s')
      | (Inr deleted, s') \<Rightarrow> (json (Message ''Deleted''), s'))"

definition delete_experience_id ::
  "config \<Rightarrow> nat \<Rightarrow> request \<Rightarrow> string \<Rightarrow> store \<Rightarrow> response \<times> store" where
  "delete_experience_id cfg now req i s =
     guarded (authenticate cfg now req) (delete_experience_handler cfg i) s"

definition post_contact_submit :: "nat \<Rightarrow> submission_input \<Rightarrow> store \<Rightarrow> response \<times> store" where
  "post_contact_submit now b s =
     (case Submission_create now b s of
        (submission, s') \<Rightarrow> (json (Message ''Message sent successfully''), s'))"

definition submissions_handler :: "store \<Rightarrow> response \<times> store" where
  "submissions_handler s = (json (SubmissionsBody (sort_newest sub_date (submissions s))), s)"

definition get_contact_submissions ::
  "config \<Rightarrow> nat \<Rightarrow> request \<Rightarrow> store \<Rightarrow> response \<times> store" where
  "get_contact_submissions cfg now req s =
     guarded (authenticate cfg now req) submissions_handler s"

subsection \<open>The router\<close>

definition apiRouter :: "config \<Rightarrow> nat \<Rightarrow> request \<Rightarrow> store \<Rightarrow> response \<times> store" where
  "apiRouter cfg now req s =
     (case route req of
        GetContent \<Rightarrow> get_content s
      | PostLogin b \<Rightarrow> post_login cfg now b s
      | PutAbout b \<Rightarrow> put_about cfg now req b s
      | PutSkills b \<Rightarrow> put_skills cfg now req b s
      | PostProjects b file \<Rightarrow> post_projects cfg now req b file s
      | PutProjectsId i b file \<Rightarrow> put_projects_id cfg now req i b file s
      | DeleteProjectsId i \<Rightarrow> delete_projects_id cfg now req i s
      | PostExperience b \<Rightarrow> post_experience cfg now req b s
      | PutExperienceId i b \<Rightarrow> put_experience_id cfg now req i b s
      | DeleteExperienceId i \<Rightarrow> delete_experience_id cfg now req i s
      | PostContactSubmit b \<Rightarrow> post_contact_submit now b s
      | GetContactSubmissions \<Rightarrow> get_contact_submissions cfg now req s)"

text \<open>The routes of the interface table whose Auth column is \<open>bearer\<close>.\<close>

fun protected :: "route \<Rightarrow> bool" where
  "protected (PutAbout b) = True"
| "protected (PutSkills b) = True"
| "protected (PostProjects b file) = True"
| "protected (PutProjectsId i b file) = True"
| "protected (DeleteProjectsId i) = True"
| "protected (PostExperience b) = True"
| "protected (PutExperienceId i b) = True"
| "protected (DeleteExperienceId i) = True"
| "protected GetContactSubmissions = True"
| "protected GetContent = False"
| "protected (PostLogin b) = False"
| "protected (PostContactSubmit b) = False"

text \<open>A run of requests, one after the other, each with its own clock reading.\<close>

fun serve :: "config \<Rightarrow> (nat \<times> request) list \<Rightarrow> store \<Rightarrow> store" where
  "serve cfg [] s = s"
| "serve cfg ((now, req) # rest) s = serve cfg rest (snd (apiRouter cfg now req s))"

subsection \<open>Bootstrap\<close>

definition seedAdmin :: "config \<Rightarrow> store \<Rightarrow> store" where
  "seedAdmin cfg s =
     (let count = Admin_countDocuments s
      in if count = 0 then
           (let email = or_default (ADMIN_EMAIL cfg) ''admin@gmail.com'';
                password = bcrypt_hashSync cfg (or_default (ADMIN_PASSWORD cfg) ''admin123'') 10
            in snd (Admin_create email password s))
         else s)"

subsection \<open>A concrete configuration\<close>

text \<open>
  Stand-ins for the libraries, to run the handlers on concrete requests: a token is
  accepted when it was made by \<open>fixture_sign\<close> for the same secret and has not run out;
  a hash is the plaintext behind a marker; a path segment is an identifier when it is
  24 lower-case hexadecimal digits.
\<close>

definition fixture_sign :: "oid \<Rightarrow> string option \<Rightarrow> nat \<Rightarrow> nat \<Rightarrow> exn + string" where
  "fixture_sign i secret expiresIn now =
     (case secret of
        None \<Rightarrow> Inl (Thrown ''secretOrPrivateKey must have a value'')
      | Some k \<Rightarrow> Inr (k @ ''.'' @ show_nat i @ ''.'' @ show_nat (now + expiresIn)))"

fun read_nat :: "nat \<Rightarrow> string \<Rightarrow> nat option" where
  "read_nat acc [] = Some acc"
| "read_nat acc (c # cs) =
     (let n = (of_char c :: nat)
      in if 48 \<le> n \<and> n \<le> 57 then read_nat (10 * acc + (n - 48)) cs else None)"

definition fixture_verify :: "string option \<Rightarrow> string option \<Rightarrow> nat \<Rightarrow> exn + jwt_payload" where
  "fixture_verify token secret now =
     (case (token, secret) of
        (Some t, Some k) \<Rightarrow>
          (case js_split CHR ''.'' t of
             [k', i, e] \<Rightarrow>
               (case (read_nat 0 i, read_nat 0 e) of
                  (Some n, Some m) \<Rightarrow>
                    if k' \<noteq> k \<or> i = [] \<or> e = [] then Inl (Thrown ''invalid signature'')
                    else if m \<le> now then Inl (Thrown ''jwt expired'')
                    else Inr \<lparr>payload_id = Some n, payload_iat = m - 86400, payload_exp = m\<rparr>
                | _ \<Rightarrow> Inl (Thrown ''jwt malformed''))
           | _ \<Rightarrow> Inl (Thrown ''jwt malformed''))
      | (None, _) \<Rightarrow> Inl (Thrown ''jwt must be provided'')
      | (_, None) \<Rightarrow> Inl (Thrown ''secret or public key must be provided''))"

definition fixture_hashSync :: "string \<Rightarrow> nat \<Rightarrow> string" where
  "fixture_hashSync p rounds = ''$2a$'' @ show_nat rounds @ ''$'' @ rev p"

definition fixture_compareSync :: "string option \<Rightarrow> string \<Rightarrow> exn + bool" where
  "fixture_compareSync p h =
     (case p of
        None \<Rightarrow> Inl (Thrown ''Illegal arguments: undefined, string'')
      | Some q \<Rightarrow> Inr (fixture_hashSync q 10 = h))"

fun hex_value :: "nat \<Rightarrow> string \<Rightarrow> nat option" where
  "hex_value acc [] = Some acc"
| "hex_value acc (c # cs) =
     (let n = (of_char c :: nat)
      in if 48 \<le> n \<and> n \<le> 57 then hex_value (16 * acc + (n - 48)) cs
         else if 97 \<le> n \<and> n \<le> 102 then hex_value (16 * acc + (n - 87)) cs
         else None)"

definition fixture_castObjectId :: "string \<Rightarrow> oid option" where
  "fixture_castObjectId i = (if length i = 24 then hex_value 0 i else None)"

definition fixture :: config where
  "fixture =
     \<lparr>JWT_SECRET = Some ''k'', ADMIN_EMAIL = None, ADMIN_PASSWORD = None,
      jwt_verify = fixture_verify, jwt_sign = fixture_sign,
      bcrypt_compareSync = fixture_compareSync, bcrypt_hashSync = fixture_hashSync,
      castObjectId = fixture_castObjectId\<rparr>"

definition empty_store :: store where
  "empty_store =
     \<lparr>abouts = [], projects = [], experiences = [], skills = [], submissions = [],
      admins = [], next_oid = 0\<rparr>"

section \<open>Properties\<close>

subsection \<open>The auth middleware\<close>

lemmas guarded_routes =
  put_about_def put_skills_def post_projects_def put_projects_id_def delete_projects_id_def
  post_experience_def put_experience_id_def delete_experience_id_def
  get_contact_submissions_def

lemma authenticate_Rejected_status:
  "authenticate cfg now req = Rejected r \<Longrightarrow> status r = 401"
  by (auto simp: authenticate_def status_json_def split: option.splits if_splits sum.splits)

lemma apiRouter_guarded:
  "protected (route req) \<Longrightarrow>
     \<exists>h. \<forall>s. apiRouter cfg now req s = guarded (authenticate cfg now req) h s"
  by (cases "route req") (auto simp: apiRouter_def guarded_routes)

text \<open>
  C1. On each of the nine protected routes, a request that the auth middleware rejects
  (missing or malformed Bearer header, a token that does not verify, an expired token)
  is answered with the middleware's own 401 response, and the store the router returns
  is the store it was given: the handler behind the middleware never runs.
\<close>

theorem protected_rejects_before_store:
  assumes "protected (route req)" and "authenticate cfg now req = Rejected r"
  shows "apiRouter cfg now req s = (r, s) \<and> status r = 401"
proof -
  from assms(1) obtain h where "\<forall>s. apiRouter cfg now req s = guarded (authenticate cfg now req) h s"
    using apiRouter_guarded by blast
  then have "apiRouter cfg now req s = (r, s)"
    using assms(2) by (simp add: guarded_def)
  with assms(2) show ?thesis
    by (simp add: authenticate_Rejected_status)
qed

lemma js_split_no_sep: "c \<notin> set t \<Longrightarrow> js_split c t = [t]"
  by (induction t) auto

lemma bearer_token: "CHR '' '' \<notin> set t \<Longrightarrow> js_index (js_split CHR '' '' (''Bearer '' @ t)) 1 = Some t"
  by (simp add: js_split_no_sep js_index_def)

text \<open>
  C3. The three outcomes of session validation. It answers 401 "Missing Token" exactly
  when the Authorization header is absent or does not start with \<open>Bearer \<close>; it
  answers 401 "Invalid or Expired Token" exactly when the header has that form and
  \<open>jwt.verify\<close> throws on the token (bad signature, expiry); otherwise it calls
  \<open>next()\<close> with the identifier of the verified payload. The token handed to
  \<open>jwt.verify\<close> is the text after \<open>Bearer \<close>, and the two messages differ.
\<close>

theorem authenticate_cases:
  "(authenticate cfg now req = Rejected (status_json 401 (Message ''Unauthorized: Missing Token''))
      \<longleftrightarrow> (case authorization req of None \<Rightarrow> True | Some h \<Rightarrow> \<not> startsWith h ''Bearer ''))
   \<and> (authenticate cfg now req =
         Rejected (status_json 401 (Message ''Unauthorized: Invalid or Expired Token''))
      \<longleftrightarrow> (\<exists>h err. authorization req = Some h \<and> startsWith h ''Bearer '' \<and>
             jwt_verify cfg (js_index (js_split CHR '' '' h) 1) (JWT_SECRET cfg) now = Inl err))
   \<and> (authenticate cfg now req = Next adminId
      \<longleftrightarrow> (\<exists>h decoded. authorization req = Some h \<and> startsWith h ''Bearer '' \<and>
             jwt_verify cfg (js_index (js_split CHR '' '' h) 1) (JWT_SECRET cfg) now = Inr decoded \<and>
             adminId = payload_id decoded))
   \<and> (CHR '' '' \<notin> set t \<longrightarrow> js_index (js_split CHR '' '' (''Bearer '' @ t)) 1 = Some t)
   \<and> status_json 401 (Message ''Unauthorized: Missing Token'')
        \<noteq> status_json 401 (Message ''Unauthorized: Invalid or Expired Token'')"
proof (intro conjI)
  show "authenticate cfg now req = Rejected (status_json 401 (Message ''Unauthorized: Missing Token''))
      \<longleftrightarrow> (case authorization req of None \<Rightarrow> True | Some h \<Rightarrow> \<not> startsWith h ''Bearer '')"
    by (auto simp: authenticate_def status_json_def startsWith_def split: option.splits sum.splits)
  show "authenticate cfg now req =
         Rejected (status_json 401 (Message ''Unauthorized: Invalid or Expired Token''))
      \<longleftrightarrow> (\<exists>h err. authorization req = Some h \<and> startsWith h ''Bearer '' \<and>
             jwt_verify cfg (js_index (js_split CHR '' '' h) 1) (JWT_SECRET cfg) now = Inl err)"
    by (auto simp: authenticate_def status_json_def startsWith_def split: option.splits sum.splits)
  show "authenticate cfg now req = Next adminId
      \<longleftrightarrow> (\<exists>h decoded. authorization req = Some h \<and> startsWith h ''Bearer '' \<and>
             jwt_verify cfg (js_index (js_split CHR '' '' h) 1) (JWT_SECRET cfg) now = Inr decoded \<and>
             adminId = payload_id decoded)"
    by (auto simp: authenticate_def status_json_def startsWith_def split: option.splits sum.splits)
  show "CHR '' '' \<notin> set t \<longrightarrow> js_index (js_split CHR '' '' (''Bearer '' @ t)) 1 = Some t"
    using bearer_token by blast
  show "status_json 401 (Message ''Unauthorized: Missing Token'')
        \<noteq> status_json 401 (Message ''Unauthorized: Invalid or Expired Token'')"
    by (simp add: status_json_def)
qed

theorem authenticate_cases_witness:
  "authenticate fixture 100 \<lparr>authorization = None, route = GetContactSubmissions\<rparr>
     = Rejected (status_json 401 (Message ''Unauthorized: Missing Token''))
   \<and> authenticate fixture 100 \<lparr>authorization = Some ''Basic k.7.86500'', route = GetContactSubmissions\<rparr>
     = Rejected (status_json 401 (Message ''Unauthorized: Missing Token''))
   \<and> authenticate fixture 100 \<lparr>authorization = Some ''Bearer j.7.86500'', route = GetContactSubmissions\<rparr>
     = Rejected (status_json 401 (Message ''Unauthorized: Invalid or Expired Token''))
   \<and> authenticate fixture 86500 \<lparr>authorization = Some ''Bearer k.7.86500'', route = GetContactSubmissions\<rparr>
     = Rejected (status_json 401 (Message ''Unauthorized: Invalid or Expired Token''))
   \<and> authenticate fixture 100 \<lparr>authorization = Some ''Bearer k.7.86500'', route = GetContactSubmissions\<rparr>
     = Next (Some 7)
   \<and> js_index (js_split CHR '' '' (''Bearer '' @ ''k.7.86500'')) 1 = Some ''k.7.86500''"
proof -
  have v1: "fixture_verify (Some ''j.7.86500'') (Some ''k'') 100 = Inl (Thrown ''invalid signature'')"
    by (simp add: fixture_verify_def)
  have v2: "fixture_verify (Some ''k.7.86500'') (Some ''k'') 86500 = Inl (Thrown ''jwt expired'')"
    by (simp add: fixture_verify_def)
  have v3: "fixture_verify (Some ''k.7.86500'') (Some ''k'') 100
              = Inr \<lparr>payload_id = Some 7, payload_iat = 100, payload_exp = 86500\<rparr>"
    by (simp add: fixture_verify_def)
  note c = authenticate_cases [where cfg = fixture and t = "''k.7.86500''"]
  have 1: "authenticate fixture 100 \<lparr>authorization = None, route = GetContactSubmissions\<rparr>
     = Rejected (status_json 401 (Message ''Unauthorized: Missing Token''))"
    using c [where now = 100 and req = "\<lparr>authorization = None, route = GetContactSubmissions\<rparr>"]
    by simp
  have 2: "authenticate fixture 100 \<lparr>authorization = Some ''Basic k.7.86500'', route = GetContactSubmissions\<rparr>
     = Rejected (status_json 401 (Message ''Unauthorized: Missing Token''))"
    using c [where now = 100 and req = "\<lparr>authorization = Some ''Basic k.7.86500'', route = GetContactSubmissions\<rparr>"]
    by (simp add: startsWith_def)
  have 3: "authenticate fixture 100 \<lparr>authorization = Some ''Bearer j.7.86500'', route = GetContactSubmissions\<rparr>
     = Rejected (status_json 401 (Message ''Unauthorized: Invalid or Expired Token''))"
    using c [where now = 100 and req = "\<lparr>authorization = Some ''Bearer j.7.86500'', route = GetContactSubmissions\<rparr>"]
      v1
    by (simp add: startsWith_def fixture_def js_index_def)
  have 4: "authenticate fixture 86500 \<lparr>authorization = Some ''Bearer k.7.86500'', route = GetContactSubmissions\<rparr>
     = Rejected (status_json 401 (Message ''Unauthorized: Invalid or Expired Token''))"
    using c [where now = 86500 and req = "\<lparr>authorization = Some ''Bearer k.7.86500'', route = GetContactSubmissions\<rparr>"]
      v2
    by (simp add: startsWith_def fixture_def js_index_def)
  have 5: "authenticate fixture 100 \<lparr>authorization = Some ''Bearer k.7.86500'', route = GetContactSubmissions\<rparr>
     = Next (Some 7)"
    using c [where now = 100 and adminId = "Some 7" and req = "\<lparr>authorization = Some ''Bearer k.7.86500'', route = GetContactSubmissions\<rparr>"]
      v3
    by (simp add: startsWith_def fixture_def js_index_def)
  have 6: "js_index (js_split CHR '' '' (''Bearer '' @ ''k.7.86500'')) 1 = Some ''k.7.86500''"
    using c [where now = 100 and req = "\<lparr>authorization = None, route = GetContactSubmissions\<rparr>"]
    by simp
  show ?thesis using 1 2 3 4 5 6 by blast
qed

subsection \<open>The configuration at work\<close>

lemma fixture_verify_good:
  "fixture_verify (Some ''k.7.86500'') (Some ''k'') 100
     = Inr \<lparr>payload_id = Some 7, payload_iat = 100, payload_exp = 86500\<rparr>"
  by (simp add: fixture_verify_def)

lemma fixture_verify_forged:
  "fixture_verify (Some ''j.7.86500'') (Some ''k'') 100 = Inl (Thrown ''invalid signature'')"
  by (simp add: fixture_verify_def)

lemma fixture_accepts:
  "authenticate fixture 100 \<lparr>authorization = Some ''Bearer k.7.86500'', route = r\<rparr> = Next (Some 7)"
  by (simp add: authenticate_def fixture_def startsWith_def js_index_def fixture_verify_good)

lemma fixture_rejects:
  "authenticate fixture 100 \<lparr>authorization = Some ''Bearer j.7.86500'', route = r\<rparr>
     = Rejected (status_json 401 (Message ''Unauthorized: Invalid or Expired Token''))"
  by (simp add: authenticate_def fixture_def startsWith_def js_index_def fixture_verify_forged)

subsection \<open>Rejection and the store\<close>

theorem protected_rejects_before_store_witness:
  "protected (route \<lparr>authorization = Some ''Bearer j.7.86500'', route = PutSkills [''Go'']\<rparr>)
   \<and> authenticate fixture 100 \<lparr>authorization = Some ''Bearer j.7.86500'', route = PutSkills [''Go'']\<rparr>
       = Rejected (status_json 401 (Message ''Unauthorized: Invalid or Expired Token''))
   \<and> apiRouter fixture 100 \<lparr>authorization = Some ''Bearer j.7.86500'', route = PutSkills [''Go'']\<rparr>
         empty_store
       = (status_json 401 (Message ''Unauthorized: Invalid or Expired Token''), empty_store)
   \<and> status (status_json 401 (Message ''Unauthorized: Invalid or Expired Token'')) = 401"
proof -
  have p: "protected (route \<lparr>authorization = Some ''Bearer j.7.86500'', route = PutSkills [''Go'']\<rparr>)"
    by simp
  show ?thesis
    using p fixture_rejects [of "PutSkills [''Go'']"]
      protected_rejects_before_store [OF p fixture_rejects, of empty_store]
    by simp
qed

lemma handler_status:
  "status (fst (about_handler now ab s)) \<noteq> 401"
  "status (fst (skills_handler now ns s)) \<noteq> 401"
  "status (fst (add_project_handler now pb file s)) \<noteq> 401"
  "status (fst (update_project_handler cfg now i pb file s)) \<noteq> 401"
  "status (fst (delete_project_handler cfg i s)) \<noteq> 401"
  "status (fst (add_experience_handler now xb s)) \<noteq> 401"
  "status (fst (update_experience_handler cfg i xb s)) \<noteq> 401"
  "status (fst (delete_experience_handler cfg i s)) \<noteq> 401"
  "status (fst (submissions_handler s)) \<noteq> 401"
  by (auto simp: about_handler_def skills_handler_def add_project_handler_def
      update_project_handler_def delete_project_handler_def add_experience_handler_def
      update_experience_handler_def delete_experience_handler_def submissions_handler_def
      json_def status_json_def Let_def
      split: option.splits prod.splits sum.splits)

lemma apiRouter_401_iff:
  assumes "protected (route req)"
  shows "status (fst (apiRouter cfg now req s)) = 401 \<longleftrightarrow> (\<exists>r. authenticate cfg now req = Rejected r)"
proof (cases "authenticate cfg now req")
  case (Rejected r)
  with assms show ?thesis
    using apiRouter_guarded [OF assms, of cfg now] authenticate_Rejected_status [OF Rejected]
    by (auto simp: guarded_def)
next
  case (Next i)
  with assms show ?thesis
    by (cases "route req") (auto simp: apiRouter_def guarded_routes guarded_def handler_status)
qed

lemma post_login_no_admins:
  "admins s = [] \<Longrightarrow> post_login cfg now b s = (status_json 401 (Message ''Invalid credentials''), s)"
  by (simp add: post_login_def Admin_findOne_def)

text \<open>
  C10. Whether a protected route answers 401 is decided by the auth middleware alone,
  which reads the header, the secret and the clock and never the store: the decision,
  and the rejecting response, are the same on any two stores, also after every
  Administrator has been deleted. The store matters at login only: on a store without
  administrators every login is refused.
\<close>

theorem validation_ignores_store:
  assumes "protected (route req)"
  shows "(status (fst (apiRouter cfg now req s1)) = 401 \<longleftrightarrow> status (fst (apiRouter cfg now req s2)) = 401)
     \<and> (status (fst (apiRouter cfg now req s1)) = 401 \<longrightarrow>
          fst (apiRouter cfg now req s1) = fst (apiRouter cfg now req s2))
     \<and> (status (fst (apiRouter cfg now req (s1\<lparr>admins := []\<rparr>))) = 401
          \<longleftrightarrow> status (fst (apiRouter cfg now req s1)) = 401)
     \<and> (status (fst (apiRouter cfg now req s1)) = 401 \<longleftrightarrow> (\<exists>r. authenticate cfg now req = Rejected r))
     \<and> fst (post_login cfg now b (s1\<lparr>admins := []\<rparr>)) = status_json 401 (Message ''Invalid credentials'')"
proof (intro conjI)
  show "status (fst (apiRouter cfg now req s1)) = 401 \<longleftrightarrow> status (fst (apiRouter cfg now req s2)) = 401"
    by (simp add: apiRouter_401_iff [OF assms])
  show "status (fst (apiRouter cfg now req s1)) = 401 \<longrightarrow>
          fst (apiRouter cfg now req s1) = fst (apiRouter cfg now req s2)"
    using apiRouter_guarded [OF assms, of cfg now]
    by (auto simp: apiRouter_401_iff [OF assms] guarded_def)
  show "status (fst (apiRouter cfg now req (s1\<lparr>admins := []\<rparr>))) = 401
          \<longleftrightarrow> status (fst (apiRouter cfg now req s1)) = 401"
    by (simp add: apiRouter_401_iff [OF assms])
  show "status (fst (apiRouter cfg now req s1)) = 401 \<longleftrightarrow> (\<exists>r. authenticate cfg now req = Rejected r)"
    by (rule apiRouter_401_iff [OF assms])
  show "fst (post_login cfg now b (s1\<lparr>admins := []\<rparr>)) = status_json 401 (Message ''Invalid credentials'')"
    by (simp add: post_login_no_admins)
qed

subsection \<open>Login\<close>

text \<open>
  The two refusals agree: a login whose email matches no Administrator and a login whose
  email matches but whose password \<open>compareSync\<close> reports as wrong get the same
  response, 401 with the one message "Invalid credentials", and leave the store as it
  was.
\<close>

lemma login_refusals_agree:
  assumes "Admin_findOne (lin_email b1) s = None"
    and "Admin_findOne (lin_email b2) s = Some a"
    and "bcrypt_compareSync cfg (lin_password b2) (adm_password a) = Inr False"
  shows "apiRouter cfg now1 \<lparr>authorization = h1, route = PostLogin b1\<rparr> s
           = (status_json 401 (Message ''Invalid credentials''), s)
       \<and> apiRouter cfg now2 \<lparr>authorization = h2, route = PostLogin b2\<rparr> s
           = (status_json 401 (Message ''Invalid credentials''), s)"
  using assms by (simp add: apiRouter_def post_login_def)

lemma fixture_hash_default: "fixture_hashSync ''admin123'' 10 = ''$2a$10$321nimda''"
  by code_simp

lemma seeded_store:
  "seedAdmin fixture empty_store =
     empty_store\<lparr>admins := [\<lparr>adm_id = 0, adm_email = ''admin@gmail.com'',
                               adm_password = ''$2a$10$321nimda''\<rparr>],
                 next_oid := 1\<rparr>"
  by (simp add: seedAdmin_def Admin_countDocuments_def empty_store_def fixture_def
      or_default_def Admin_create_def Let_def fixture_hash_default)

lemma login_refusals_agree_example:
  "Admin_findOne (lin_email \<lparr>lin_email = Some ''nobody@example.com'', lin_password = Some ''admin123''\<rparr>)
       (seedAdmin fixture empty_store) = None
   \<and> Admin_findOne (lin_email \<lparr>lin_email = Some ''admin@gmail.com'', lin_password = Some ''letmein''\<rparr>)
       (seedAdmin fixture empty_store)
       = Some \<lparr>adm_id = 0, adm_email = ''admin@gmail.com'', adm_password = ''$2a$10$321nimda''\<rparr>
   \<and> bcrypt_compareSync fixture
         (lin_password \<lparr>lin_email = Some ''admin@gmail.com'', lin_password = Some ''letmein''\<rparr>)
         (adm_password \<lparr>adm_id = 0, adm_email = ''admin@gmail.com'', adm_password = ''$2a$10$321nimda''\<rparr>)
       = Inr False
   \<and> apiRouter fixture 100
         \<lparr>authorization = None,
          route = PostLogin \<lparr>lin_email = Some ''nobody@example.com'', lin_password = Some ''admin123''\<rparr>\<rparr>
         (seedAdmin fixture empty_store)
       = (status_json 401 (Message ''Invalid credentials''), seedAdmin fixture empty_store)
   \<and> apiRouter fixture 100
         \<lparr>authorization = None,
          route = PostLogin \<lparr>lin_email = Some ''admin@gmail.com'', lin_password = Some ''letmein''\<rparr>\<rparr>
         (seedAdmin fixture empty_store)
       = (status_json 401 (Message ''Invalid credentials''), seedAdmin fixture empty_store)"
proof -
  let ?b1 = "\<lparr>lin_email = Some ''nobody@example.com'', lin_password = Some ''admin123''\<rparr>"
  let ?b2 = "\<lparr>lin_email = Some ''admin@gmail.com'', lin_password = Some ''letmein''\<rparr>"
  let ?a = "\<lparr>adm_id = 0, adm_email = ''admin@gmail.com'', adm_password = ''$2a$10$321nimda''\<rparr>"
  have 1: "Admin_findOne (lin_email ?b1) (seedAdmin fixture empty_store) = None"
    unfolding seeded_store by (simp add: Admin_findOne_def empty_store_def)
  have 2: "Admin_findOne (lin_email ?b2) (seedAdmin fixture empty_store) = Some ?a"
    unfolding seeded_store by (simp add: Admin_findOne_def empty_store_def)
  have 3: "bcrypt_compareSync fixture (lin_password ?b2) (adm_password ?a) = Inr False"
    by (simp add: fixture_def fixture_compareSync_def fixture_hashSync_def)
  from login_refusals_agree [OF 1 2 3, of 100 None 100 None] 1 2 3
  show ?thesis by blast
qed

text \<open>
  C2. The login handler does not answer every failed login alike. \<open>compareSync\<close> is
  called only after the email has matched a record, inside the \<open>try\<close> block; when it
  throws on the submitted password (a body without a \<open>password\<close> field), the
  \<open>catch\<close> answers 500 "Login error", while the same submission with an email that
  matches no record is answered 401 "Invalid credentials". The two responses differ, so
  the response tells whether the email belongs to an Administrator.
\<close>

theorem login_distinguishes_known_email:
  assumes "Admin_findOne (lin_email b1) s = None"
    and "Admin_findOne (lin_email b2) s = Some a"
    and "bcrypt_compareSync cfg (lin_password b2) (adm_password a) = Inl err"
  shows "apiRouter cfg now1 \<lparr>authorization = h1, route = PostLogin b1\<rparr> s
           = (status_json 401 (Message ''Invalid credentials''), s)
       \<and> apiRouter cfg now2 \<lparr>authorization = h2, route = PostLogin b2\<rparr> s
           = (status_json 500 (Failure ''Login error'' err), s)
       \<and> fst (apiRouter cfg now1 \<lparr>authorization = h1, route = PostLogin b1\<rparr> s)
           \<noteq> fst (apiRouter cfg now2 \<lparr>authorization = h2, route = PostLogin b2\<rparr> s)"
  using assms by (simp add: apiRouter_def post_login_def status_json_def)

theorem login_distinguishes_known_email_witness:
  "Admin_findOne (lin_email \<lparr>lin_email = Some ''nobody@example.com'', lin_password = None\<rparr>)
       (seedAdmin fixture empty_store) = None
   \<and> Admin_findOne (lin_email \<lparr>lin_email = Some ''admin@gmail.com'', lin_password = None\<rparr>)
       (seedAdmin fixture empty_store)
       = Some \<lparr>adm_id = 0, adm_email = ''admin@gmail.com'', adm_password = ''$2a$10$321nimda''\<rparr>
   \<and> bcrypt_compareSync fixture
         (lin_password \<lparr>lin_email = Some ''admin@gmail.com'', lin_password = None\<rparr>)
         (adm_password \<lparr>adm_id = 0, adm_email = ''admin@gmail.com'', adm_password = ''$2a$10$321nimda''\<rparr>)
       = Inl (Thrown ''Illegal arguments: undefined, string'')
   \<and> apiRouter fixture 100
         \<lparr>authorization = None,
          route = PostLogin \<lparr>lin_email = Some ''nobody@example.com'', lin_password = None\<rparr>\<rparr>
         (seedAdmin fixture empty_store)
       = (status_json 401 (Message ''Invalid credentials''), seedAdmin fixture empty_store)
   \<and> apiRouter fixture 100
         \<lparr>authorization = None,
          route = PostLogin \<lparr>lin_email = Some ''admin@gmail.com'', lin_password = None\<rparr>\<rparr>
         (seedAdmin fixture empty_store)
       = (status_json 500
            (Failure ''Login error'' (Thrown ''Illegal arguments: undefined, string'')),
          seedAdmin fixture empty_store)
   \<and> fst (apiRouter fixture 100
         \<lparr>authorization = None,
          route = PostLogin \<lparr>lin_email = Some ''nobody@example.com'', lin_password = None\<rparr>\<rparr>
         (seedAdmin fixture empty_store))
     \<noteq> fst (apiRouter fixture 100
         \<lparr>authorization = None,
          route = PostLogin \<lparr>lin_email = Some ''admin@gmail.com'', lin_password = None\<rparr>\<rparr>
         (seedAdmin fixture empty_store))"
proof -
  let ?b1 = "\<lparr>lin_email = Some ''nobody@example.com'', lin_password = None\<rparr>"
  let ?b2 = "\<lparr>lin_email = Some ''admin@gmail.com'', lin_password = None\<rparr>"
  let ?a = "\<lparr>adm_id = 0, adm_email = ''admin@gmail.com'', adm_password = ''$2a$10$321nimda''\<rparr>"
  have 1: "Admin_findOne (lin_email ?b1) (seedAdmin fixture empty_store) = None"
    unfolding seeded_store by (simp add: Admin_findOne_def empty_store_def)
  have 2: "Admin_findOne (lin_email ?b2) (seedAdmin fixture empty_store) = Some ?a"
    unfolding seeded_store by (simp add: Admin_findOne_def empty_store_def)
  have 3: "bcrypt_compareSync fixture (lin_password ?b2) (adm_password ?a)
             = Inl (Thrown ''Illegal arguments: undefined, string'')"
    by (simp add: fixture_def fixture_compareSync_def)
  from login_distinguishes_known_email [OF 1 2 3, of 100 None 100 None] 1 2 3
  show ?thesis by blast
qed

theorem validation_ignores_store_witness:
  "protected (route \<lparr>authorization = Some ''Bearer j.7.86500'', route = DeleteProjectsId ''abc''\<rparr>)
   \<and> status (fst (apiRouter fixture 100
        \<lparr>authorization = Some ''Bearer j.7.86500'', route = DeleteProjectsId ''abc''\<rparr>
        (seedAdmin fixture empty_store))) = 401
   \<and> status (fst (apiRouter fixture 100
        \<lparr>authorization = Some ''Bearer j.7.86500'', route = DeleteProjectsId ''abc''\<rparr>
        empty_store)) = 401
   \<and> status (fst (apiRouter fixture 100
        \<lparr>authorization = Some ''Bearer j.7.86500'', route = DeleteProjectsId ''abc''\<rparr>
        ((seedAdmin fixture empty_store)\<lparr>admins := []\<rparr>))) = 401
   \<and> fst (apiRouter fixture 100
        \<lparr>authorization = Some ''Bearer j.7.86500'', route = DeleteProjectsId ''abc''\<rparr>
        (seedAdmin fixture empty_store))
     = fst (apiRouter fixture 100
        \<lparr>authorization = Some ''Bearer j.7.86500'', route = DeleteProjectsId ''abc''\<rparr>
        empty_store)
   \<and> status (fst (apiRouter fixture 100
        \<lparr>authorization = Some ''Bearer k.7.86500'', route = GetContactSubmissions\<rparr>
        ((seedAdmin fixture empty_store)\<lparr>admins := []\<rparr>))) \<noteq> 401"
proof -
  let ?bad = "\<lparr>authorization = Some ''Bearer j.7.86500'', route = DeleteProjectsId ''abc''\<rparr>"
  let ?good = "\<lparr>authorization = Some ''Bearer k.7.86500'', route = GetContactSubmissions\<rparr>"
  let ?s = "seedAdmin fixture empty_store"
  have p: "protected (route ?bad)" by simp
  have q: "protected (route ?good)" by simp
  have r: "\<exists>r. authenticate fixture 100 ?bad = Rejected r"
    by (simp add: fixture_rejects)
  have a: "\<not> (\<exists>r. authenticate fixture 100 ?good = Rejected r)"
    by (simp add: fixture_accepts)
  note bad = validation_ignores_store [OF p, of fixture 100 ?s empty_store]
  note good = validation_ignores_store [OF q, of fixture 100 ?s empty_store]
  have 1: "status (fst (apiRouter fixture 100 ?bad ?s)) = 401"
    using bad r by blast
  have 2: "status (fst (apiRouter fixture 100 ?bad empty_store)) = 401"
    using bad 1 by blast
  have 3: "status (fst (apiRouter fixture 100 ?bad (?s\<lparr>admins := []\<rparr>))) = 401"
    using bad 1 by blast
  have 4: "fst (apiRouter fixture 100 ?bad ?s) = fst (apiRouter fixture 100 ?bad empty_store)"
    using bad 1 by blast
  have 5: "status (fst (apiRouter fixture 100 ?good (?s\<lparr>admins := []\<rparr>))) \<noteq> 401"
    using good a by blast
  show ?thesis using p 1 2 3 4 5 by blast
qed

subsection \<open>The About singleton\<close>

lemma Skill_insertMany_frame:
  "abouts (snd (Skill_insertMany now ns acc s)) = abouts s
   \<and> projects (snd (Skill_insertMany now ns acc s)) = projects s
   \<and> experiences (snd (Skill_insertMany now ns acc s)) = experiences s
   \<and> submissions (snd (Skill_insertMany now ns acc s)) = submissions s
   \<and> admins (snd (Skill_insertMany now ns acc s)) = admins s"
  by (induction ns arbitrary: acc s) (simp_all add: Let_def)

lemma about_handler_existing:
  "abouts s = a # rest \<Longrightarrow>
     about_handler now b s =
       (json (AboutBody (a\<lparr>a_title := in_title b, a_text := in_text b\<rparr>)),
        s\<lparr>abouts := a\<lparr>a_title := in_title b, a_text := in_text b\<rparr> # rest\<rparr>)"
  by (simp add: about_handler_def About_findOne_def About_hydrate_def findOne_def
      About_save_def Let_def)

lemma about_handler_absent:
  "abouts s = [] \<Longrightarrow>
     abouts (snd (about_handler now b s)) =
       [\<lparr>a_id = next_oid s,
         a_title = Some (case in_title b of None \<Rightarrow> ''About Me'' | Some t \<Rightarrow> t),
         a_text = Some (case in_text b of None \<Rightarrow> [] | Some t \<Rightarrow> t),
         a_createdAt = now\<rparr>]"
  by (simp add: about_handler_def About_findOne_def findOne_def About_create_def Let_def)

lemma about_handler_count:
  "length (abouts (snd (about_handler now b s))) = max 1 (length (abouts s))"
proof (cases "abouts s")
  case Nil
  then show ?thesis by (simp add: about_handler_absent)
next
  case (Cons a rest)
  then show ?thesis by (simp add: about_handler_existing)
qed

lemma other_handlers_abouts:
  "abouts (snd (skills_handler now ns s)) = abouts s"
  "abouts (snd (add_project_handler now pb file s)) = abouts s"
  "abouts (snd (update_project_handler cfg now i pb file s)) = abouts s"
  "abouts (snd (delete_project_handler cfg i s)) = abouts s"
  "abouts (snd (add_experience_handler now xb s)) = abouts s"
  "abouts (snd (update_experience_handler cfg i xb s)) = abouts s"
  "abouts (snd (delete_experience_handler cfg i s)) = abouts s"
  "abouts (snd (submissions_handler s)) = abouts s"
  "abouts (snd (post_contact_submit now sb s)) = abouts s"
  "abouts (snd (post_login cfg now lb s)) = abouts s"
  "abouts (snd (get_content s)) = abouts s"
proof -
  have "abouts (snd (Skill_insertMany now ns [] (Skill_deleteMany s))) = abouts s"
    by (simp add: Skill_insertMany_frame Skill_deleteMany_def)
  then show "abouts (snd (skills_handler now ns s)) = abouts s"
    by (cases "Skill_insertMany now ns [] (Skill_deleteMany s)")
       (auto simp: skills_handler_def split: sum.splits)
qed (auto simp: add_project_handler_def Project_create_def
      update_project_handler_def Project_findByIdAndUpdate_def
      delete_project_handler_def Project_findByIdAndDelete_def
      add_experience_handler_def Experience_create_def
      update_experience_handler_def Experience_findByIdAndUpdate_def
      delete_experience_handler_def Experience_findByIdAndDelete_def
      submissions_handler_def post_contact_submit_def Submission_create_def
      post_login_def get_content_def Let_def
      split: option.splits sum.splits)

lemma apiRouter_about_count:
  "length (abouts (snd (apiRouter cfg now req s))) \<le> max 1 (length (abouts s))"
  by (cases "route req"; cases "authenticate cfg now req")
     (simp_all add: apiRouter_def guarded_routes guarded_def other_handlers_abouts
        about_handler_count)

lemma serve_about_count:
  "length (abouts s) \<le> 1 \<Longrightarrow> length (abouts (serve cfg reqs s)) \<le> 1"
proof (induction reqs arbitrary: s)
  case Nil
  then show ?case by simp
next
  case (Cons x reqs)
  obtain now req where x: "x = (now, req)" by (cases x)
  have "length (abouts (snd (apiRouter cfg now req s))) \<le> max 1 (length (abouts s))"
    by (rule apiRouter_about_count)
  with Cons.prems have "length (abouts (snd (apiRouter cfg now req s))) \<le> 1" by simp
  then show ?case using Cons.IH x by simp
qed

text \<open>
  C4. Update-about is an upsert on the first About record. With a record in the store,
  an authenticated call rewrites the title and text of that record where it stands and
  adds none; with no record, it creates one from the payload. No request of any kind
  takes the number of About records above one when it was at most one before, so no run
  of requests does; and two authenticated calls on an empty store leave exactly one.
\<close>

theorem update_about_upsert:
  "(authenticate cfg now req = Next i \<and> route req = PutAbout b \<and> abouts s = a # rest \<longrightarrow>
      apiRouter cfg now req s =
        (json (AboutBody (a\<lparr>a_title := in_title b, a_text := in_text b\<rparr>)),
         s\<lparr>abouts := a\<lparr>a_title := in_title b, a_text := in_text b\<rparr> # rest\<rparr>))
   \<and> (authenticate cfg now req = Next i \<and> route req = PutAbout b \<and> abouts s = [] \<longrightarrow>
      abouts (snd (apiRouter cfg now req s)) =
        [\<lparr>a_id = next_oid s,
          a_title = Some (case in_title b of None \<Rightarrow> ''About Me'' | Some t \<Rightarrow> t),
          a_text = Some (case in_text b of None \<Rightarrow> [] | Some t \<Rightarrow> t),
          a_createdAt = now\<rparr>])
   \<and> length (abouts (snd (apiRouter cfg now req s))) \<le> max 1 (length (abouts s))
   \<and> (length (abouts s) \<le> 1 \<longrightarrow> length (abouts (serve cfg reqs s)) \<le> 1)
   \<and> (abouts s = [] \<and> authenticate cfg now req = Next i \<and> route req = PutAbout b \<and>
      authenticate cfg now' req' = Next i' \<and> route req' = PutAbout b' \<longrightarrow>
      length (abouts (serve cfg [(now, req), (now', req')] s)) = 1)"
proof (intro conjI impI)
  assume h: "authenticate cfg now req = Next i \<and> route req = PutAbout b \<and> abouts s = a # rest"
  then show "apiRouter cfg now req s =
        (json (AboutBody (a\<lparr>a_title := in_title b, a_text := in_text b\<rparr>)),
         s\<lparr>abouts := a\<lparr>a_title := in_title b, a_text := in_text b\<rparr> # rest\<rparr>)"
    by (simp add: apiRouter_def put_about_def guarded_def about_handler_existing)
next
  assume h: "authenticate cfg now req = Next i \<and> route req = PutAbout b \<and> abouts s = []"
  then show "abouts (snd (apiRouter cfg now req s)) =
        [\<lparr>a_id = next_oid s,
          a_title = Some (case in_title b of None \<Rightarrow> ''About Me'' | Some t \<Rightarrow> t),
          a_text = Some (case in_text b of None \<Rightarrow> [] | Some t \<Rightarrow> t),
          a_createdAt = now\<rparr>]"
    by (simp add: apiRouter_def put_about_def guarded_def about_handler_absent)
next
  show "length (abouts (snd (apiRouter cfg now req s))) \<le> max 1 (length (abouts s))"
    by (rule apiRouter_about_count)
next
  assume "length (abouts s) \<le> 1"
  then show "length (abouts (serve cfg reqs s)) \<le> 1"
    by (rule serve_about_count)
next
  assume h: "abouts s = [] \<and> authenticate cfg now req = Next i \<and> route req = PutAbout b \<and>
      authenticate cfg now' req' = Next i' \<and> route req' = PutAbout b'"
  then show "length (abouts (serve cfg [(now, req), (now', req')] s)) = 1"
    by (simp add: apiRouter_def put_about_def guarded_def about_handler_count)
qed

theorem update_about_upsert_witness:
  "authenticate fixture 100
      \<lparr>authorization = Some ''Bearer k.7.86500'',
       route = PutAbout \<lparr>in_title = Some ''Hello'', in_text = None\<rparr>\<rparr> = Next (Some 7)
   \<and> abouts empty_store = []
   \<and> abouts (snd (apiRouter fixture 100
        \<lparr>authorization = Some ''Bearer k.7.86500'',
         route = PutAbout \<lparr>in_title = Some ''Hello'', in_text = None\<rparr>\<rparr> empty_store))
       = [\<lparr>a_id = 0, a_title = Some ''Hello'', a_text = Some [], a_createdAt = 100\<rparr>]
   \<and> length (abouts (serve fixture
        [(100, \<lparr>authorization = Some ''Bearer k.7.86500'',
                route = PutAbout \<lparr>in_title = Some ''Hello'', in_text = None\<rparr>\<rparr>),
         (100, \<lparr>authorization = Some ''Bearer k.7.86500'',
                route = PutAbout \<lparr>in_title = Some ''Hello'', in_text = None\<rparr>\<rparr>)]
        empty_store)) = 1
   \<and> apiRouter fixture 100
        \<lparr>authorization = Some ''Bearer k.7.86500'',
         route = PutAbout \<lparr>in_title = Some ''Hello'', in_text = None\<rparr>\<rparr>
        (empty_store\<lparr>abouts :=
           [\<lparr>a_id = 5, a_title = Some ''Old'', a_text = Some ''text'', a_createdAt = 1\<rparr>]\<rparr>)
       = (json (AboutBody \<lparr>a_id = 5, a_title = Some ''Hello'', a_text = None, a_createdAt = 1\<rparr>),
          empty_store\<lparr>abouts :=
           [\<lparr>a_id = 5, a_title = Some ''Hello'', a_text = None, a_createdAt = 1\<rparr>]\<rparr>)"
proof -
  let ?b = "\<lparr>in_title = Some ''Hello'', in_text = None\<rparr>"
  let ?req = "\<lparr>authorization = Some ''Bearer k.7.86500'', route = PutAbout ?b\<rparr>"
  let ?a = "\<lparr>a_id = 5, a_title = Some ''Old'', a_text = Some ''text'', a_createdAt = 1\<rparr>"
  have auth: "authenticate fixture 100 ?req = Next (Some 7)"
    by (rule fixture_accepts)
  have r: "route ?req = PutAbout ?b" by simp
  have e: "abouts empty_store = []" by (simp add: empty_store_def)
  have o: "abouts (empty_store\<lparr>abouts := [?a]\<rparr>) = ?a # []" by simp
  note fresh = update_about_upsert [where cfg = fixture and now = 100 and req = ?req
      and i = "Some 7" and b = ?b and s = empty_store and now' = 100 and req' = ?req
      and i' = "Some 7" and b' = ?b]
  note old = update_about_upsert [where cfg = fixture and now = 100 and req = ?req
      and i = "Some 7" and b = ?b and s = "empty_store\<lparr>abouts := [?a]\<rparr>" and a = ?a
      and rest = "[]"]
  have 1: "abouts (snd (apiRouter fixture 100 ?req empty_store))
       = [\<lparr>a_id = 0, a_title = Some ''Hello'', a_text = Some [], a_createdAt = 100\<rparr>]"
    using fresh auth r e by (simp add: empty_store_def)
  have 2: "length (abouts (serve fixture [(100, ?req), (100, ?req)] empty_store)) = 1"
    using fresh auth r e by blast
  have 3: "apiRouter fixture 100 ?req (empty_store\<lparr>abouts := [?a]\<rparr>)
       = (json (AboutBody \<lparr>a_id = 5, a_title = Some ''Hello'', a_text = None, a_createdAt = 1\<rparr>),
          empty_store\<lparr>abouts :=
           [\<lparr>a_id = 5, a_title = Some ''Hello'', a_text = None, a_createdAt = 1\<rparr>]\<rparr>)"
    using old auth r o by simp
  show ?thesis using auth e 1 2 3 by blast
qed

subsection \<open>Replacing the skills\<close>

lemma Skill_insertMany_fresh:
  "distinct ns \<Longrightarrow> set ns \<inter> set (map sk_name (skills s)) = {} \<Longrightarrow>
     \<exists>docs. Skill_insertMany now ns acc s =
              (Inr (acc @ docs),
               s\<lparr>skills := skills s @ docs, next_oid := next_oid s + length ns\<rparr>)
            \<and> map sk_name docs = ns"
proof (induction ns arbitrary: acc s)
  case Nil
  then show ?case by simp
next
  case (Cons n ns)
  let ?doc = "\<lparr>sk_id = next_oid s, sk_name = n, sk_createdAt = now\<rparr>"
  let ?s1 = "s\<lparr>skills := skills s @ [?doc], next_oid := Suc (next_oid s)\<rparr>"
  from Cons.prems have fresh: "n \<notin> set (map sk_name (skills s))" by auto
  from Cons.prems have d: "distinct ns" and
    disj: "set ns \<inter> set (map sk_name (skills ?s1)) = {}" by auto
  from Cons.IH [OF d disj, of "acc @ [?doc]"]
  obtain docs where
    run: "Skill_insertMany now ns (acc @ [?doc]) ?s1 =
            (Inr ((acc @ [?doc]) @ docs),
             ?s1\<lparr>skills := skills ?s1 @ docs, next_oid := next_oid ?s1 + length ns\<rparr>)"
    and names: "map sk_name docs = ns"
    by blast
  have "Skill_insertMany now (n # ns) acc s =
          (Inr (acc @ (?doc # docs)),
           s\<lparr>skills := skills s @ (?doc # docs), next_oid := next_oid s + length (n # ns)\<rparr>)
        \<and> map sk_name (?doc # docs) = n # ns"
    using fresh run names by (simp add: Let_def)
  then show ?case by (rule exI [where x = "?doc # docs"])
qed

lemma skills_handler_distinct:
  assumes "distinct ns"
  shows "\<exists>docs. skills_handler now ns s =
            (json (SkillsBody ns), s\<lparr>skills := docs, next_oid := next_oid s + length ns\<rparr>)
          \<and> map sk_name docs = ns"
proof -
  have "set ns \<inter> set (map sk_name (skills (Skill_deleteMany s))) = {}"
    by (simp add: Skill_deleteMany_def)
  from Skill_insertMany_fresh [OF assms this, of now "[]"]
  obtain docs where
    run: "Skill_insertMany now ns [] (Skill_deleteMany s) =
            (Inr ([] @ docs),
             (Skill_deleteMany s)\<lparr>skills := skills (Skill_deleteMany s) @ docs,
                next_oid := next_oid (Skill_deleteMany s) + length ns\<rparr>)"
    and names: "map sk_name docs = ns"
    by blast
  have "skills_handler now ns s =
          (json (SkillsBody ns), s\<lparr>skills := docs, next_oid := next_oid s + length ns\<rparr>)"
    using run names by (simp add: skills_handler_def Skill_deleteMany_def)
  with names show ?thesis by blast
qed

lemma skills_handler_forgets:
  "skills (snd (skills_handler now ns (s\<lparr>skills := old\<rparr>))) = skills (snd (skills_handler now ns s))"
proof -
  have "Skill_deleteMany (s\<lparr>skills := old\<rparr>) = Skill_deleteMany s"
    by (simp add: Skill_deleteMany_def)
  then show ?thesis by (simp add: skills_handler_def)
qed

text \<open>
  C5. An authenticated replace-skills with a list of distinct names answers with that
  list; afterwards the stored skills are exactly those names, one record each, whatever
  skills were stored before (the result is the same from any prior skill set), the other
  collections are untouched, and read-all-content reports exactly those names.
\<close>

theorem replace_skills_roundtrip:
  assumes "authenticate cfg now req = Next i" and "route req = PutSkills names"
    and "distinct names"
  shows "fst (apiRouter cfg now req s) = json (SkillsBody names)
     \<and> map sk_name (skills (snd (apiRouter cfg now req s))) = names
     \<and> skills (snd (apiRouter cfg now req (s\<lparr>skills := old\<rparr>)))
         = skills (snd (apiRouter cfg now req s))
     \<and> abouts (snd (apiRouter cfg now req s)) = abouts s
     \<and> projects (snd (apiRouter cfg now req s)) = projects s
     \<and> experiences (snd (apiRouter cfg now req s)) = experiences s
     \<and> fst (apiRouter cfg now' \<lparr>authorization = h, route = GetContent\<rparr>
                 (snd (apiRouter cfg now req s)))
         = json (ContentBody
                (case About_findOne s of None \<Rightarrow> AboutLiteral ''About Me'' []
                 | Some a \<Rightarrow> AboutDoc a)
                (sort_newest p_createdAt (projects s))
                (sort_newest e_createdAt (experiences s)) names)"
proof -
  have run: "apiRouter cfg now req s = skills_handler now names s" for s
    using assms(1,2) by (simp add: apiRouter_def put_skills_def guarded_def)
  from skills_handler_distinct [OF assms(3), of now s]
  obtain docs where
    h: "skills_handler now names s =
          (json (SkillsBody names), s\<lparr>skills := docs, next_oid := next_oid s + length names\<rparr>)"
    and n: "map sk_name docs = names"
    by blast
  have content: "fst (apiRouter cfg now' \<lparr>authorization = h, route = GetContent\<rparr>
                 (snd (apiRouter cfg now req s)))
            = json (ContentBody
                (case About_findOne s of None \<Rightarrow> AboutLiteral ''About Me'' []
                 | Some a \<Rightarrow> AboutDoc a)
                (sort_newest p_createdAt (projects s))
                (sort_newest e_createdAt (experiences s)) names)"
  proof -
    have s': "snd (apiRouter cfg now req s)
                = s\<lparr>skills := docs, next_oid := next_oid s + length names\<rparr>"
      using h by (simp add: run)
    show ?thesis
      unfolding s' using n
      by (simp add: apiRouter_def get_content_def About_findOne_def Let_def)
  qed
  show ?thesis
    using h n content skills_handler_forgets [where now = now and ns = names and s = s and old = old]
    by (simp add: run)
qed

theorem replace_skills_roundtrip_witness:
  "authenticate fixture 100
      \<lparr>authorization = Some ''Bearer k.7.86500'', route = PutSkills [''Go'', ''Rust'']\<rparr>
     = Next (Some 7)
   \<and> distinct [''Go'', ''Rust'']
   \<and> fst (apiRouter fixture 100
        \<lparr>authorization = Some ''Bearer k.7.86500'', route = PutSkills [''Go'', ''Rust'']\<rparr>
        (empty_store\<lparr>skills := [\<lparr>sk_id = 3, sk_name = ''C'', sk_createdAt = 1\<rparr>]\<rparr>))
       = json (SkillsBody [''Go'', ''Rust''])
   \<and> map sk_name (skills (snd (apiRouter fixture 100
        \<lparr>authorization = Some ''Bearer k.7.86500'', route = PutSkills [''Go'', ''Rust'']\<rparr>
        (empty_store\<lparr>skills := [\<lparr>sk_id = 3, sk_name = ''C'', sk_createdAt = 1\<rparr>]\<rparr>))))
       = [''Go'', ''Rust'']
   \<and> fst (apiRouter fixture 200 \<lparr>authorization = None, route = GetContent\<rparr>
        (snd (apiRouter fixture 100
          \<lparr>authorization = Some ''Bearer k.7.86500'', route = PutSkills [''Go'', ''Rust'']\<rparr>
          (empty_store\<lparr>skills := [\<lparr>sk_id = 3, sk_name = ''C'', sk_createdAt = 1\<rparr>]\<rparr>))))
       = json (ContentBody (AboutLiteral ''About Me'' []) [] [] [''Go'', ''Rust''])"
proof -
  let ?req = "\<lparr>authorization = Some ''Bearer k.7.86500'', route = PutSkills [''Go'', ''Rust'']\<rparr>"
  let ?s = "empty_store\<lparr>skills := [\<lparr>sk_id = 3, sk_name = ''C'', sk_createdAt = 1\<rparr>]\<rparr>"
  have auth: "authenticate fixture 100 ?req = Next (Some 7)"
    by (rule fixture_accepts)
  have r: "route ?req = PutSkills [''Go'', ''Rust'']" by simp
  have d: "distinct [''Go'', ''Rust'']" by simp
  note t = replace_skills_roundtrip [OF auth r d, where s = ?s and now' = 200 and h = None]
  have c: "fst (apiRouter fixture 200 \<lparr>authorization = None, route = GetContent\<rparr>
        (snd (apiRouter fixture 100 ?req ?s)))
       = json (ContentBody (AboutLiteral ''About Me'' []) [] [] [''Go'', ''Rust''])"
    using t by (simp add: empty_store_def About_findOne_def findOne_def sort_newest_def)
  show ?thesis using auth d t c by blast
qed

subsection \<open>Bootstrap\<close>

lemma seedAdmin_empty:
  "admins s = [] \<Longrightarrow>
     seedAdmin cfg s =
       s\<lparr>admins := [\<lparr>adm_id = next_oid s,
                      adm_email = or_default (ADMIN_EMAIL cfg) ''admin@gmail.com'',
                      adm_password =
                        bcrypt_hashSync cfg (or_default (ADMIN_PASSWORD cfg) ''admin123'') 10\<rparr>],
         next_oid := Suc (next_oid s)\<rparr>"
  by (simp add: seedAdmin_def Admin_countDocuments_def Admin_create_def Let_def)

lemma seedAdmin_nonempty: "admins s \<noteq> [] \<Longrightarrow> seedAdmin cfg s = s"
  by (simp add: seedAdmin_def Admin_countDocuments_def)

text \<open>
  C9. The bootstrap counts the Administrator records. With a count of zero it adds
  exactly one record, whose email is the configured value or the default and whose
  password field is what \<open>hashSync\<close> returned for the configured or default
  plaintext (so the plaintext is not in the store unless the hash function returns its
  argument); nothing else in the store changes. With a count above zero it changes
  nothing. Run twice from zero, it leaves one Administrator.
\<close>

theorem seedAdmin_once:
  "(Admin_countDocuments s = 0 \<longrightarrow>
      seedAdmin cfg s =
        s\<lparr>admins := [\<lparr>adm_id = next_oid s,
                       adm_email = or_default (ADMIN_EMAIL cfg) ''admin@gmail.com'',
                       adm_password =
                         bcrypt_hashSync cfg (or_default (ADMIN_PASSWORD cfg) ''admin123'') 10\<rparr>],
          next_oid := Suc (next_oid s)\<rparr>
      \<and> Admin_countDocuments (seedAdmin cfg s) = 1
      \<and> Admin_countDocuments (seedAdmin cfg (seedAdmin cfg s)) = 1
      \<and> (bcrypt_hashSync cfg (or_default (ADMIN_PASSWORD cfg) ''admin123'') 10
            \<noteq> or_default (ADMIN_PASSWORD cfg) ''admin123'' \<longrightarrow>
          or_default (ADMIN_PASSWORD cfg) ''admin123''
            \<notin> set (map adm_password (admins (seedAdmin cfg s)))))
   \<and> (Admin_countDocuments s \<noteq> 0 \<longrightarrow> seedAdmin cfg s = s)
   \<and> or_default None ''admin@gmail.com'' = ''admin@gmail.com''
   \<and> (e \<noteq> [] \<longrightarrow> or_default (Some e) ''admin@gmail.com'' = e)"
proof (intro conjI impI)
  assume z: "Admin_countDocuments s = 0"
  then have e: "admins s = []" by (simp add: Admin_countDocuments_def)
  show first: "seedAdmin cfg s =
        s\<lparr>admins := [\<lparr>adm_id = next_oid s,
                       adm_email = or_default (ADMIN_EMAIL cfg) ''admin@gmail.com'',
                       adm_password =
                         bcrypt_hashSync cfg (or_default (ADMIN_PASSWORD cfg) ''admin123'') 10\<rparr>],
          next_oid := Suc (next_oid s)\<rparr>"
    by (rule seedAdmin_empty [OF e])
  show one: "Admin_countDocuments (seedAdmin cfg s) = 1"
    by (simp add: first Admin_countDocuments_def)
  have "admins (seedAdmin cfg s) \<noteq> []"
    by (simp add: first)
  then have "seedAdmin cfg (seedAdmin cfg s) = seedAdmin cfg s"
    by (rule seedAdmin_nonempty)
  then show "Admin_countDocuments (seedAdmin cfg (seedAdmin cfg s)) = 1"
    using one by simp
  assume "bcrypt_hashSync cfg (or_default (ADMIN_PASSWORD cfg) ''admin123'') 10
            \<noteq> or_default (ADMIN_PASSWORD cfg) ''admin123''"
  then show "or_default (ADMIN_PASSWORD cfg) ''admin123''
            \<notin> set (map adm_password (admins (seedAdmin cfg s)))"
    by (simp add: first)
next
  assume "Admin_countDocuments s \<noteq> 0"
  then show "seedAdmin cfg s = s"
    by (simp add: seedAdmin_nonempty Admin_countDocuments_def)
next
  show "or_default None ''admin@gmail.com'' = ''admin@gmail.com''"
    by (simp add: or_default_def)
next
  assume "e \<noteq> []"
  then show "or_default (Some e) ''admin@gmail.com'' = e"
    by (simp add: or_default_def)
qed

theorem seedAdmin_once_witness:
  "Admin_countDocuments empty_store = 0
   \<and> seedAdmin fixture empty_store =
       empty_store\<lparr>admins := [\<lparr>adm_id = 0, adm_email = ''admin@gmail.com'',
                                 adm_password = ''$2a$10$321nimda''\<rparr>],
                   next_oid := 1\<rparr>
   \<and> Admin_countDocuments (seedAdmin fixture empty_store) = 1
   \<and> Admin_countDocuments (seedAdmin fixture (seedAdmin fixture empty_store)) = 1
   \<and> ''admin123'' \<notin> set (map adm_password (admins (seedAdmin fixture empty_store)))
   \<and> Admin_countDocuments (seedAdmin fixture empty_store) \<noteq> 0
   \<and> seedAdmin fixture (seedAdmin fixture empty_store) = seedAdmin fixture empty_store
   \<and> or_default (Some ''root@example.org'') ''admin@gmail.com'' = ''root@example.org''"
proof -
  have z: "Admin_countDocuments empty_store = 0"
    by (simp add: Admin_countDocuments_def empty_store_def)
  have env: "or_default (ADMIN_EMAIL fixture) ''admin@gmail.com'' = ''admin@gmail.com''"
    "or_default (ADMIN_PASSWORD fixture) ''admin123'' = ''admin123''"
    by (simp_all add: fixture_def or_default_def)
  have hash: "bcrypt_hashSync fixture ''admin123'' 10 = ''$2a$10$321nimda''"
    by (simp add: fixture_def fixture_hash_default)
  have nz: "''root@example.org'' \<noteq> []" by simp
  note a = seedAdmin_once [where cfg = fixture and s = empty_store and e = "''root@example.org''"]
  note b = seedAdmin_once [where cfg = fixture and s = "seedAdmin fixture empty_store"
      and e = "''root@example.org''"]
  have 1: "seedAdmin fixture empty_store =
       empty_store\<lparr>admins := [\<lparr>adm_id = 0, adm_email = ''admin@gmail.com'',
                                 adm_password = ''$2a$10$321nimda''\<rparr>],
                   next_oid := 1\<rparr>"
    using a z by (simp add: env hash empty_store_def)
  have 2: "Admin_countDocuments (seedAdmin fixture empty_store) = 1"
    using a z by blast
  have 3: "Admin_countDocuments (seedAdmin fixture (seedAdmin fixture empty_store)) = 1"
    using a z by blast
  have 4: "''admin123'' \<notin> set (map adm_password (admins (seedAdmin fixture empty_store)))"
    using a z by (simp add: env hash)
  have 5: "Admin_countDocuments (seedAdmin fixture empty_store) \<noteq> 0"
    using 2 by simp
  have 6: "seedAdmin fixture (seedAdmin fixture empty_store) = seedAdmin fixture empty_store"
    using b 5 by blast
  have 7: "or_default (Some ''root@example.org'') ''admin@gmail.com'' = ''root@example.org''"
    using a nz by blast
  show ?thesis using z 1 2 3 4 5 6 7 by blast
qed

subsection \<open>Deleting and updating by identifier\<close>

lemma delete_first_absent: "find P ds = None \<Longrightarrow> delete_first P ds = ds"
  by (induction ds) (auto split: if_splits)

lemma update_first_absent: "find P ds = None \<Longrightarrow> update_first P f ds = ds"
  by (induction ds) (auto split: if_splits)

lemma delete_project_handler_cast:
  "castObjectId cfg i = Some k \<Longrightarrow>
     delete_project_handler cfg i s =
       (json (Message ''Deleted''),
        s\<lparr>projects := delete_first (\<lambda>doc. p_id doc = k) (projects s)\<rparr>)"
  by (simp add: delete_project_handler_def Project_findByIdAndDelete_def)

lemma delete_experience_handler_cast:
  "castObjectId cfg i = Some k \<Longrightarrow>
     delete_experience_handler cfg i s =
       (json (Message ''Deleted''),
        s\<lparr>experiences := delete_first (\<lambda>doc. e_id doc = k) (experiences s)\<rparr>)"
  by (simp add: delete_experience_handler_def Experience_findByIdAndDelete_def)

text \<open>
  C7. An authenticated delete of a Project or of an Experience by an identifier answers
  200 with the message "Deleted", whether or not a record has that identifier; when
  none has it, the store is left exactly as it was. The identifier is a path segment
  that the driver can cast to an ObjectId.
\<close>

theorem delete_missing_acknowledged:
  assumes "authenticate cfg now req = Next a" and "castObjectId cfg i = Some k"
  shows "(route req = DeleteProjectsId i \<longrightarrow>
            fst (apiRouter cfg now req s) = json (Message ''Deleted'')
          \<and> status (fst (apiRouter cfg now req s)) = 200
          \<and> (find (\<lambda>doc. p_id doc = k) (projects s) = None \<longrightarrow>
               snd (apiRouter cfg now req s) = s))
       \<and> (route req = DeleteExperienceId i \<longrightarrow>
            fst (apiRouter cfg now req s) = json (Message ''Deleted'')
          \<and> status (fst (apiRouter cfg now req s)) = 200
          \<and> (find (\<lambda>doc. e_id doc = k) (experiences s) = None \<longrightarrow>
               snd (apiRouter cfg now req s) = s))"
proof (intro conjI impI)
  assume r: "route req = DeleteProjectsId i"
  have run: "apiRouter cfg now req s =
               (json (Message ''Deleted''),
                s\<lparr>projects := delete_first (\<lambda>doc. p_id doc = k) (projects s)\<rparr>)"
    using assms r
    by (simp add: apiRouter_def delete_projects_id_def guarded_def delete_project_handler_cast)
  show "fst (apiRouter cfg now req s) = json (Message ''Deleted'')"
    by (simp add: run)
  show "status (fst (apiRouter cfg now req s)) = 200"
    by (simp add: run json_def)
  assume "find (\<lambda>doc. p_id doc = k) (projects s) = None"
  then show "snd (apiRouter cfg now req s) = s"
    by (simp add: run delete_first_absent)
next
  assume r: "route req = DeleteExperienceId i"
  have run: "apiRouter cfg now req s =
               (json (Message ''Deleted''),
                s\<lparr>experiences := delete_first (\<lambda>doc. e_id doc = k) (experiences s)\<rparr>)"
    using assms r
    by (simp add: apiRouter_def delete_experience_id_def guarded_def
        delete_experience_handler_cast)
  show "fst (apiRouter cfg now req s) = json (Message ''Deleted'')"
    by (simp add: run)
  show "status (fst (apiRouter cfg now req s)) = 200"
    by (simp add: run json_def)
  assume "find (\<lambda>doc. e_id doc = k) (experiences s) = None"
  then show "snd (apiRouter cfg now req s) = s"
    by (simp add: run delete_first_absent)
qed

lemma fixture_cast_one: "castObjectId fixture ''000000000000000000000001'' = Some 1"
  by (simp add: fixture_def fixture_castObjectId_def)

lemma fixture_cast_short: "castObjectId fixture ''abc'' = None"
  by (simp add: fixture_def fixture_castObjectId_def)

theorem delete_missing_acknowledged_witness:
  "authenticate fixture 100
      \<lparr>authorization = Some ''Bearer k.7.86500'',
       route = DeleteProjectsId ''000000000000000000000001''\<rparr> = Next (Some 7)
   \<and> castObjectId fixture ''000000000000000000000001'' = Some 1
   \<and> find (\<lambda>doc. p_id doc = 1) (projects (seedAdmin fixture empty_store)) = None
   \<and> apiRouter fixture 100
        \<lparr>authorization = Some ''Bearer k.7.86500'',
         route = DeleteProjectsId ''000000000000000000000001''\<rparr>
        (seedAdmin fixture empty_store)
       = (json (Message ''Deleted''), seedAdmin fixture empty_store)
   \<and> find (\<lambda>doc. e_id doc = 1) (experiences (seedAdmin fixture empty_store)) = None
   \<and> apiRouter fixture 100
        \<lparr>authorization = Some ''Bearer k.7.86500'',
         route = DeleteExperienceId ''000000000000000000000001''\<rparr>
        (seedAdmin fixture empty_store)
       = (json (Message ''Deleted''), seedAdmin fixture empty_store)"
proof -
  let ?i = "''000000000000000000000001''"
  let ?p = "\<lparr>authorization = Some ''Bearer k.7.86500'', route = DeleteProjectsId ?i\<rparr>"
  let ?e = "\<lparr>authorization = Some ''Bearer k.7.86500'', route = DeleteExperienceId ?i\<rparr>"
  let ?s = "seedAdmin fixture empty_store"
  have ap: "authenticate fixture 100 ?p = Next (Some 7)" by (rule fixture_accepts)
  have ae: "authenticate fixture 100 ?e = Next (Some 7)" by (rule fixture_accepts)
  have np: "find (\<lambda>doc. p_id doc = 1) (projects ?s) = None"
    unfolding seeded_store by (simp add: empty_store_def)
  have ne: "find (\<lambda>doc. e_id doc = 1) (experiences ?s) = None"
    unfolding seeded_store by (simp add: empty_store_def)
  have 1: "apiRouter fixture 100 ?p ?s = (json (Message ''Deleted''), ?s)"
    using delete_missing_acknowledged [OF ap fixture_cast_one, of ?s] np
    by (simp add: prod_eq_iff)
  have 2: "apiRouter fixture 100 ?e ?s = (json (Message ''Deleted''), ?s)"
    using delete_missing_acknowledged [OF ae fixture_cast_one, of ?s] ne
    by (simp add: prod_eq_iff)
  show ?thesis using ap fixture_cast_one np ne 1 2 by blast
qed

lemma update_project_handler_missing:
  "castObjectId cfg i = Some k \<Longrightarrow> find (\<lambda>doc. p_id doc = k) (projects s) = None \<Longrightarrow>
     update_project_handler cfg now i b file s = (json (ProjectBody None), s)"
  by (simp add: update_project_handler_def Project_findByIdAndUpdate_def)

lemma update_experience_handler_missing:
  "castObjectId cfg i = Some k \<Longrightarrow> find (\<lambda>doc. e_id doc = k) (experiences s) = None \<Longrightarrow>
     update_experience_handler cfg i b s = (json (ExperienceBody None), s)"
  by (simp add: update_experience_handler_def Experience_findByIdAndUpdate_def)

lemma update_project_handler_uncastable:
  "castObjectId cfg i = None \<Longrightarrow>
     update_project_handler cfg now i b file s =
       (status_json 500 (Failure ''Project update error'' CastError), s)"
  by (simp add: update_project_handler_def Project_findByIdAndUpdate_def)

lemma update_experience_handler_uncastable:
  "castObjectId cfg i = None \<Longrightarrow>
     update_experience_handler cfg i b s =
       (status_json 500 (Failure ''Experience update error'' CastError), s)"
  by (simp add: update_experience_handler_def Experience_findByIdAndUpdate_def)

text \<open>
  C8, as the claim states it, fails: an authenticated update of a Project whose
  well-formed identifier matches no record is answered 200 with the body \<open>null\<close>.
\<close>

theorem update_missing_counterexample:
  "fst (apiRouter fixture 100
      \<lparr>authorization = Some ''Bearer k.7.86500'',
       route = PutProjectsId ''000000000000000000000001''
                 \<lparr>pin_title = Some ''New title'', pin_description = None, pin_tech = None,
                  pin_link = None, pin_image = None\<rparr> None\<rparr>
      empty_store) = \<lparr>status = 200, body = ProjectBody None\<rparr>
   \<and> fst (apiRouter fixture 100
      \<lparr>authorization = Some ''Bearer k.7.86500'',
       route = PutExperienceId ''000000000000000000000001''
                 \<lparr>xin_role = Some ''Engineer'', xin_company = None, xin_duration = None,
                  xin_description = None\<rparr>\<rparr>
      empty_store) = \<lparr>status = 200, body = ExperienceBody None\<rparr>"
  by (simp add: apiRouter_def put_projects_id_def put_experience_id_def guarded_def
      fixture_accepts fixture_cast_one update_project_handler_missing
      update_experience_handler_missing empty_store_def json_def)

text \<open>
  C8, amended. An authenticated update of a Project or an Experience whose identifier
  is well-formed and matches no record answers 200 with the body \<open>null\<close> and leaves the
  store unchanged: there is no not-found response and no failure. The generic 500
  failure is the answer when the path segment cannot be cast to an identifier.
\<close>

theorem update_missing_outcome:
  assumes "authenticate cfg now req = Next a"
  shows "(route req = PutProjectsId i pb file \<and> castObjectId cfg i = Some k \<and>
          find (\<lambda>doc. p_id doc = k) (projects s) = None \<longrightarrow>
            apiRouter cfg now req s = (\<lparr>status = 200, body = ProjectBody None\<rparr>, s))
       \<and> (route req = PutExperienceId i xb \<and> castObjectId cfg i = Some k \<and>
          find (\<lambda>doc. e_id doc = k) (experiences s) = None \<longrightarrow>
            apiRouter cfg now req s = (\<lparr>status = 200, body = ExperienceBody None\<rparr>, s))
       \<and> (route req = PutProjectsId i pb file \<and> castObjectId cfg i = None \<longrightarrow>
            apiRouter cfg now req s =
              (\<lparr>status = 500, body = Failure ''Project update error'' CastError\<rparr>, s))
       \<and> (route req = PutExperienceId i xb \<and> castObjectId cfg i = None \<longrightarrow>
            apiRouter cfg now req s =
              (\<lparr>status = 500, body = Failure ''Experience update error'' CastError\<rparr>, s))"
  using assms
  by (auto simp: apiRouter_def put_projects_id_def put_experience_id_def guarded_def
      update_project_handler_missing update_experience_handler_missing
      update_project_handler_uncastable update_experience_handler_uncastable
      json_def status_json_def)

theorem update_missing_outcome_witness:
  "authenticate fixture 100
      \<lparr>authorization = Some ''Bearer k.7.86500'',
       route = PutExperienceId ''000000000000000000000001''
                 \<lparr>xin_role = Some ''Engineer'', xin_company = None, xin_duration = None,
                  xin_description = None\<rparr>\<rparr> = Next (Some 7)
   \<and> castObjectId fixture ''000000000000000000000001'' = Some 1
   \<and> find (\<lambda>doc. e_id doc = 1) (experiences empty_store) = None
   \<and> apiRouter fixture 100
      \<lparr>authorization = Some ''Bearer k.7.86500'',
       route = PutExperienceId ''000000000000000000000001''
                 \<lparr>xin_role = Some ''Engineer'', xin_company = None, xin_duration = None,
                  xin_description = None\<rparr>\<rparr>
      empty_store = (\<lparr>status = 200, body = ExperienceBody None\<rparr>, empty_store)
   \<and> castObjectId fixture ''abc'' = None
   \<and> apiRouter fixture 100
      \<lparr>authorization = Some ''Bearer k.7.86500'',
       route = PutProjectsId ''abc''
                 \<lparr>pin_title = Some ''New title'', pin_description = None, pin_tech = None,
                  pin_link = None, pin_image = None\<rparr> None\<rparr>
      empty_store
     = (\<lparr>status = 500, body = Failure ''Project update error'' CastError\<rparr>, empty_store)"
proof -
  let ?xb = "\<lparr>xin_role = Some ''Engineer'', xin_company = None, xin_duration = None,
                  xin_description = None\<rparr>"
  let ?pb = "\<lparr>pin_title = Some ''New title'', pin_description = None, pin_tech = None,
                  pin_link = None, pin_image = None\<rparr>"
  let ?x = "\<lparr>authorization = Some ''Bearer k.7.86500'',
       route = PutExperienceId ''000000000000000000000001'' ?xb\<rparr>"
  let ?p = "\<lparr>authorization = Some ''Bearer k.7.86500'', route = PutProjectsId ''abc'' ?pb None\<rparr>"
  have ax: "authenticate fixture 100 ?x = Next (Some 7)" by (rule fixture_accepts)
  have ap: "authenticate fixture 100 ?p = Next (Some 7)" by (rule fixture_accepts)
  have n: "find (\<lambda>doc. e_id doc = 1) (experiences empty_store) = None"
    by (simp add: empty_store_def)
  have 1: "apiRouter fixture 100 ?x empty_store
             = (\<lparr>status = 200, body = ExperienceBody None\<rparr>, empty_store)"
    using update_missing_outcome [OF ax, where i = "''000000000000000000000001''" and xb = ?xb
        and k = 1 and s = empty_store] fixture_cast_one n
    by simp
  have 2: "apiRouter fixture 100 ?p empty_store
     = (\<lparr>status = 500, body = Failure ''Project update error'' CastError\<rparr>, empty_store)"
    using update_missing_outcome [OF ap, where i = "''abc''" and pb = ?pb and s = empty_store] fixture_cast_short
    by simp
  show ?thesis using ax fixture_cast_one n 1 fixture_cast_short 2 by blast
qed

subsection \<open>The image of a project\<close>

lemma find_update_first:
  "find P ds = Some d \<Longrightarrow> P (f d) \<Longrightarrow> find P (update_first P f ds) = Some (f d)"
  by (induction ds) (auto split: if_splits)

lemma length_update_first: "length (update_first P f ds) = length ds"
  by (induction ds) auto

lemma projectData_fields:
  "pin_image (projectData b (upload_single now file)) =
     (case file of
        None \<Rightarrow> pin_image b
      | Some originalname \<Rightarrow> Some (''/uploads/'' @ show_nat now @ ''-'' @ originalname))"
  "pin_title (projectData b (upload_single now file)) = pin_title b"
  "pin_description (projectData b (upload_single now file)) = pin_description b"
  "pin_tech (projectData b (upload_single now file)) = pin_tech b"
  "pin_link (projectData b (upload_single now file)) = pin_link b"
  by (simp_all add: projectData_def upload_single_def split: option.splits)

lemma add_project_handler_result:
  "add_project_handler now b file s =
     (json (ProjectBody (Some
        \<lparr>p_id = next_oid s, p_title = pin_title b, p_description = pin_description b,
         p_tech = pin_tech b, p_link = pin_link b,
         p_image = (case file of
                      None \<Rightarrow> pin_image b
                    | Some originalname \<Rightarrow>
                        Some (''/uploads/'' @ show_nat now @ ''-'' @ originalname)),
         p_createdAt = now\<rparr>)),
      s\<lparr>projects := projects s @
           [\<lparr>p_id = next_oid s, p_title = pin_title b, p_description = pin_description b,
             p_tech = pin_tech b, p_link = pin_link b,
             p_image = (case file of
                          None \<Rightarrow> pin_image b
                        | Some originalname \<Rightarrow>
                            Some (''/uploads/'' @ show_nat now @ ''-'' @ originalname)),
             p_createdAt = now\<rparr>],
        next_oid := Suc (next_oid s)\<rparr>)"
  by (simp add: add_project_handler_def Project_create_def Let_def projectData_fields)

lemma update_project_handler_found:
  assumes "castObjectId cfg i = Some k" and "find (\<lambda>doc. p_id doc = k) (projects s) = Some old"
  shows "update_project_handler cfg now i b file s =
     (json (ProjectBody (Some (Project_set (projectData b (upload_single now file)) old))),
      s\<lparr>projects := update_first (\<lambda>doc. p_id doc = k)
                       (Project_set (projectData b (upload_single now file))) (projects s)\<rparr>)"
  using assms by (simp add: update_project_handler_def Project_findByIdAndUpdate_def)

lemma Project_set_fields:
  "p_image (Project_set (projectData b (upload_single now file)) old) =
     (case file of
        None \<Rightarrow> overlay (pin_image b) (p_image old)
      | Some originalname \<Rightarrow> Some (''/uploads/'' @ show_nat now @ ''-'' @ originalname))"
  "p_title (Project_set (projectData b (upload_single now file)) old)
     = overlay (pin_title b) (p_title old)"
  "p_description (Project_set (projectData b (upload_single now file)) old)
     = overlay (pin_description b) (p_description old)"
  "p_tech (Project_set (projectData b (upload_single now file)) old)
     = overlay (pin_tech b) (p_tech old)"
  "p_link (Project_set (projectData b (upload_single now file)) old)
     = overlay (pin_link b) (p_link old)"
  "p_id (Project_set d old) = p_id old"
  "p_createdAt (Project_set d old) = p_createdAt old"
  by (simp_all add: Project_set_def projectData_fields overlay_def split: option.splits)

text \<open>
  C6, as the claim states it, fails: a create with no file part whose body has an
  \<open>image\<close> field stores that field, and an update with no file part whose body has an
  \<open>image\<close> field replaces the stored path.
\<close>

theorem project_image_counterexample:
  "map p_image (projects (snd (apiRouter fixture 100
      \<lparr>authorization = Some ''Bearer k.7.86500'',
       route = PostProjects
                 \<lparr>pin_title = Some ''Site'', pin_description = None, pin_tech = None,
                  pin_link = None, pin_image = Some ''https://cdn.example/a.png''\<rparr> None\<rparr>
      empty_store))) = [Some ''https://cdn.example/a.png'']
   \<and> map p_image (projects (snd (apiRouter fixture 100
      \<lparr>authorization = Some ''Bearer k.7.86500'',
       route = PutProjectsId ''000000000000000000000001''
                 \<lparr>pin_title = None, pin_description = None, pin_tech = None,
                  pin_link = None, pin_image = Some ''https://cdn.example/b.png''\<rparr> None\<rparr>
      (empty_store\<lparr>projects :=
         [\<lparr>p_id = 1, p_title = Some ''Site'', p_description = None, p_tech = None,
           p_link = None, p_image = Some ''/uploads/5-a.png'', p_createdAt = 5\<rparr>]\<rparr>))))
     = [Some ''https://cdn.example/b.png'']"
  by (simp add: apiRouter_def post_projects_def put_projects_id_def guarded_def
      fixture_accepts fixture_cast_one add_project_handler_result
      update_project_handler_def Project_findByIdAndUpdate_def Project_set_def
      projectData_def upload_single_def overlay_def empty_store_def)

text \<open>
  C6, amended. On an authenticated project create or update, with a file part the
  stored \<open>image\<close> is \<open>/uploads/\<close> followed by the name the upload gave the file,
  whatever the body or the record held before. Without a file part, a create stores the
  body's \<open>image\<close> field (unset when the body has none), and an update of an existing
  record sets \<open>image\<close> to the body's field when it has one and keeps the stored path
  otherwise; each other field is the body's when the body has it and the stored one
  otherwise, and the identifier and creation time are kept.
\<close>

theorem project_image_field:
  assumes "authenticate cfg now req = Next a"
  shows
    "(route req = PostProjects b file \<longrightarrow>
        apiRouter cfg now req s =
          (json (ProjectBody (Some
             \<lparr>p_id = next_oid s, p_title = pin_title b, p_description = pin_description b,
              p_tech = pin_tech b, p_link = pin_link b,
              p_image = (case file of
                           None \<Rightarrow> pin_image b
                         | Some originalname \<Rightarrow>
                             Some (''/uploads/'' @ show_nat now @ ''-'' @ originalname)),
              p_createdAt = now\<rparr>)),
           s\<lparr>projects := projects s @
                [\<lparr>p_id = next_oid s, p_title = pin_title b, p_description = pin_description b,
                  p_tech = pin_tech b, p_link = pin_link b,
                  p_image = (case file of
                               None \<Rightarrow> pin_image b
                             | Some originalname \<Rightarrow>
                                 Some (''/uploads/'' @ show_nat now @ ''-'' @ originalname)),
                  p_createdAt = now\<rparr>],
             next_oid := Suc (next_oid s)\<rparr>))
     \<and> (route req = PutProjectsId i b file \<and> castObjectId cfg i = Some k \<and>
        find (\<lambda>doc. p_id doc = k) (projects s) = Some old \<longrightarrow>
        (\<exists>new.
           fst (apiRouter cfg now req s) = json (ProjectBody (Some new))
         \<and> find (\<lambda>doc. p_id doc = k) (projects (snd (apiRouter cfg now req s))) = Some new
         \<and> length (projects (snd (apiRouter cfg now req s))) = length (projects s)
         \<and> p_image new =
             (case file of
                None \<Rightarrow> (case pin_image b of None \<Rightarrow> p_image old | Some v \<Rightarrow> Some v)
              | Some originalname \<Rightarrow>
                  Some (''/uploads/'' @ show_nat now @ ''-'' @ originalname))
         \<and> p_title new = (case pin_title b of None \<Rightarrow> p_title old | Some v \<Rightarrow> Some v)
         \<and> p_description new =
             (case pin_description b of None \<Rightarrow> p_description old | Some v \<Rightarrow> Some v)
         \<and> p_tech new = (case pin_tech b of None \<Rightarrow> p_tech old | Some v \<Rightarrow> Some v)
         \<and> p_link new = (case pin_link b of None \<Rightarrow> p_link old | Some v \<Rightarrow> Some v)
         \<and> p_id new = p_id old \<and> p_createdAt new = p_createdAt old))
     \<and> startsWith (''/uploads/'' @ show_nat now @ ''-'' @ originalname) ''/uploads/''"
proof (intro conjI impI)
  assume "route req = PostProjects b file"
  then show "apiRouter cfg now req s =
          (json (ProjectBody (Some
             \<lparr>p_id = next_oid s, p_title = pin_title b, p_description = pin_description b,
              p_tech = pin_tech b, p_link = pin_link b,
              p_image = (case file of
                           None \<Rightarrow> pin_image b
                         | Some originalname \<Rightarrow>
                             Some (''/uploads/'' @ show_nat now @ ''-'' @ originalname)),
              p_createdAt = now\<rparr>)),
           s\<lparr>projects := projects s @
                [\<lparr>p_id = next_oid s, p_title = pin_title b, p_description = pin_description b,
                  p_tech = pin_tech b, p_link = pin_link b,
                  p_image = (case file of
                               None \<Rightarrow> pin_image b
                             | Some originalname \<Rightarrow>
                                 Some (''/uploads/'' @ show_nat now @ ''-'' @ originalname)),
                  p_createdAt = now\<rparr>],
             next_oid := Suc (next_oid s)\<rparr>)"
    using assms
    by (simp add: apiRouter_def post_projects_def guarded_def add_project_handler_result)
next
  assume h: "route req = PutProjectsId i b file \<and> castObjectId cfg i = Some k \<and>
        find (\<lambda>doc. p_id doc = k) (projects s) = Some old"
  let ?d = "projectData b (upload_single now file)"
  let ?new = "Project_set ?d old"
  have run: "apiRouter cfg now req s =
     (json (ProjectBody (Some ?new)),
      s\<lparr>projects := update_first (\<lambda>doc. p_id doc = k) (Project_set ?d) (projects s)\<rparr>)"
    using assms h
    by (simp add: apiRouter_def put_projects_id_def guarded_def update_project_handler_found)
  have k: "p_id old = k"
    using h by (auto dest: find_Some_iff [THEN iffD1])
  have found: "find (\<lambda>doc. p_id doc = k) (projects (snd (apiRouter cfg now req s))) = Some ?new"
    using h k by (simp add: run find_update_first Project_set_fields)
  have len: "length (projects (snd (apiRouter cfg now req s))) = length (projects s)"
    by (simp add: run length_update_first)
  show "\<exists>new.
           fst (apiRouter cfg now req s) = json (ProjectBody (Some new))
         \<and> find (\<lambda>doc. p_id doc = k) (projects (snd (apiRouter cfg now req s))) = Some new
         \<and> length (projects (snd (apiRouter cfg now req s))) = length (projects s)
         \<and> p_image new =
             (case file of
                None \<Rightarrow> (case pin_image b of None \<Rightarrow> p_image old | Some v \<Rightarrow> Some v)
              | Some originalname \<Rightarrow>
                  Some (''/uploads/'' @ show_nat now @ ''-'' @ originalname))
         \<and> p_title new = (case pin_title b of None \<Rightarrow> p_title old | Some v \<Rightarrow> Some v)
         \<and> p_description new =
             (case pin_description b of None \<Rightarrow> p_description old | Some v \<Rightarrow> Some v)
         \<and> p_tech new = (case pin_tech b of None \<Rightarrow> p_tech old | Some v \<Rightarrow> Some v)
         \<and> p_link new = (case pin_link b of None \<Rightarrow> p_link old | Some v \<Rightarrow> Some v)
         \<and> p_id new = p_id old \<and> p_createdAt new = p_createdAt old"
    using found len
    by (intro exI [where x = ?new])
       (simp add: run Project_set_fields overlay_def split: option.splits)
next
  show "startsWith (''/uploads/'' @ show_nat now @ ''-'' @ originalname) ''/uploads/''"
    by (simp add: startsWith_def)
qed

lemma show_nat_100: "show_nat 100 = ''100''"
  by code_simp

theorem project_image_field_witness:
  "authenticate fixture 100
      \<lparr>authorization = Some ''Bearer k.7.86500'',
       route = PostProjects
                 \<lparr>pin_title = Some ''Site'', pin_description = None, pin_tech = None,
                  pin_link = None, pin_image = None\<rparr> (Some ''a.png'')\<rparr> = Next (Some 7)
   \<and> apiRouter fixture 100
      \<lparr>authorization = Some ''Bearer k.7.86500'',
       route = PostProjects
                 \<lparr>pin_title = Some ''Site'', pin_description = None, pin_tech = None,
                  pin_link = None, pin_image = None\<rparr> (Some ''a.png'')\<rparr>
      empty_store
     = (json (ProjectBody (Some
          \<lparr>p_id = 0, p_title = Some ''Site'', p_description = None, p_tech = None,
           p_link = None, p_image = Some ''/uploads/100-a.png'', p_createdAt = 100\<rparr>)),
        empty_store\<lparr>projects :=
          [\<lparr>p_id = 0, p_title = Some ''Site'', p_description = None, p_tech = None,
            p_link = None, p_image = Some ''/uploads/100-a.png'', p_createdAt = 100\<rparr>],
          next_oid := 1\<rparr>)
   \<and> castObjectId fixture ''000000000000000000000001'' = Some 1
   \<and> find (\<lambda>doc. p_id doc = 1)
        (projects (empty_store\<lparr>projects :=
           [\<lparr>p_id = 1, p_title = Some ''Site'', p_description = None, p_tech = None,
             p_link = None, p_image = Some ''/uploads/5-a.png'', p_createdAt = 5\<rparr>]\<rparr>))
     = Some \<lparr>p_id = 1, p_title = Some ''Site'', p_description = None, p_tech = None,
             p_link = None, p_image = Some ''/uploads/5-a.png'', p_createdAt = 5\<rparr>
   \<and> (\<exists>new.
        fst (apiRouter fixture 100
          \<lparr>authorization = Some ''Bearer k.7.86500'',
           route = PutProjectsId ''000000000000000000000001''
                     \<lparr>pin_title = Some ''Renamed'', pin_description = None, pin_tech = None,
                      pin_link = None, pin_image = None\<rparr> None\<rparr>
          (empty_store\<lparr>projects :=
             [\<lparr>p_id = 1, p_title = Some ''Site'', p_description = None, p_tech = None,
               p_link = None, p_image = Some ''/uploads/5-a.png'', p_createdAt = 5\<rparr>]\<rparr>))
          = json (ProjectBody (Some new))
      \<and> p_image new = Some ''/uploads/5-a.png''
      \<and> p_title new = Some ''Renamed''
      \<and> p_id new = 1)
   \<and> startsWith ''/uploads/100-a.png'' ''/uploads/''"
proof -
  let ?cb = "\<lparr>pin_title = Some ''Site'', pin_description = None, pin_tech = None,
                  pin_link = None, pin_image = None\<rparr>"
  let ?ub = "\<lparr>pin_title = Some ''Renamed'', pin_description = None, pin_tech = None,
                      pin_link = None, pin_image = None\<rparr>"
  let ?c = "\<lparr>authorization = Some ''Bearer k.7.86500'', route = PostProjects ?cb (Some ''a.png'')\<rparr>"
  let ?u = "\<lparr>authorization = Some ''Bearer k.7.86500'',
           route = PutProjectsId ''000000000000000000000001'' ?ub None\<rparr>"
  let ?old = "\<lparr>p_id = 1, p_title = Some ''Site'', p_description = None, p_tech = None,
             p_link = None, p_image = Some ''/uploads/5-a.png'', p_createdAt = 5\<rparr>"
  let ?s = "empty_store\<lparr>projects := [?old]\<rparr>"
  have ac: "authenticate fixture 100 ?c = Next (Some 7)" by (rule fixture_accepts)
  have au: "authenticate fixture 100 ?u = Next (Some 7)" by (rule fixture_accepts)
  have f: "find (\<lambda>doc. p_id doc = 1) (projects ?s) = Some ?old" by simp
  have 1: "apiRouter fixture 100 ?c empty_store
     = (json (ProjectBody (Some
          \<lparr>p_id = 0, p_title = Some ''Site'', p_description = None, p_tech = None,
           p_link = None, p_image = Some ''/uploads/100-a.png'', p_createdAt = 100\<rparr>)),
        empty_store\<lparr>projects :=
          [\<lparr>p_id = 0, p_title = Some ''Site'', p_description = None, p_tech = None,
            p_link = None, p_image = Some ''/uploads/100-a.png'', p_createdAt = 100\<rparr>],
          next_oid := 1\<rparr>)"
    using project_image_field [OF ac, where b = ?cb and s = empty_store
        and originalname = "''a.png''"]
    by (simp add: show_nat_100 empty_store_def)
  have 2: "\<exists>new.
        fst (apiRouter fixture 100 ?u ?s) = json (ProjectBody (Some new))
      \<and> p_image new = Some ''/uploads/5-a.png''
      \<and> p_title new = Some ''Renamed''
      \<and> p_id new = 1"
    using project_image_field [OF au, where b = ?ub and s = ?s and old = ?old and k = 1
        and i = "''000000000000000000000001''" and originalname = "''a.png''"]
      fixture_cast_one f
    by auto
  have 3: "startsWith ''/uploads/100-a.png'' ''/uploads/''"
    using project_image_field [OF ac, where b = ?cb and s = empty_store
        and originalname = "''a.png''"]
    by (simp add: show_nat_100)
  show ?thesis using ac 1 fixture_cast_one f 2 3 by blast
qed

subsection \<open>Failures the handlers pass on\<close>

text \<open>
  The cases that the theorems above leave to their hypotheses: a \<open>compareSync\<close> that
  throws is caught by the login handler and answered 500, which happens only after the
  email has matched; a path segment that cannot be cast to an identifier makes a delete
  answer 500; a name given twice makes replace-skills answer 500 with the first
  occurrence left in the store.
\<close>

lemma login_compare_throws:
  "Admin_findOne (lin_email b) s = Some a \<Longrightarrow>
   bcrypt_compareSync cfg (lin_password b) (adm_password a) = Inl err \<Longrightarrow>
     post_login cfg now b s = (status_json 500 (Failure ''Login error'' err), s)"
  by (simp add: post_login_def)

lemma delete_uncastable:
  "castObjectId cfg i = None \<Longrightarrow>
     delete_project_handler cfg i s = (status_json 500 (Failure ''Delete error'' CastError), s)"
  "castObjectId cfg i = None \<Longrightarrow>
     delete_experience_handler cfg i s = (status_json 500 (Failure ''Delete error'' CastError), s)"
  by (simp_all add: delete_project_handler_def Project_findByIdAndDelete_def
      delete_experience_handler_def Experience_findByIdAndDelete_def)

lemma skills_handler_duplicate:
  "skills_handler now [n, n] s =
     (status_json 500 (Failure ''Skills update error'' DuplicateKeyError),
      s\<lparr>skills := [\<lparr>sk_id = next_oid s, sk_name = n, sk_createdAt = now\<rparr>],
        next_oid := Suc (next_oid s)\<rparr>)"
  by (simp add: skills_handler_def Skill_deleteMany_def Let_def)

end
